theory Spec2Isabelle
  imports Complex_Main "HOL-Library.Word" "HOL-Library.Sublist" "HOL-Library.Multiset"
    "HOL-Library.Log_Nat"
begin

section \<open>JavaScript strings and numbers\<close>

text \<open>
  A JavaScript string is a sequence of UTF-16 code units, and every operation the program
  applies to strings (\<^verbatim>\<open>includes\<close>, \<^verbatim>\<open>trim\<close>, \<^verbatim>\<open>length\<close>, equality in a
  \<^verbatim>\<open>Set\<close>, a regular expression without the \<^verbatim>\<open>u\<close> flag) works on code units.
  So a string is a list of 16-bit words. \<open>ascii\<close> writes an ASCII literal of the source.
\<close>

type_synonym jsstring = "16 word list"

definition ascii :: "string \<Rightarrow> jsstring" where
  "ascii s = map of_char s"

definition nl :: jsstring where
  \<comment> \<open>the line feed \<^verbatim>\<open>\n\<close> of a template literal\<close>
  "nl = [0x0A]"

definition dq :: jsstring where
  \<comment> \<open>the double quote\<close>
  "dq = [0x22]"

text \<open>
  \<^verbatim>\<open>${n}\<close> for a non-negative integer \<open>n\<close>: its decimal digits (JavaScript switches to
  exponent notation from \<open>10^21\<close> on, which no count of this program reaches).
\<close>

fun showNat :: "nat \<Rightarrow> jsstring" where
  "showNat n = (if n < 10 then [of_nat (48 + n)] else showNat (n div 10) @ [of_nat (48 + n mod 10)])"

declare showNat.simps [simp del]

definition showInt :: "int \<Rightarrow> jsstring" where
  \<comment> \<open>the same for an integer of either sign\<close>
  "showInt i = (if i < 0 then ascii ''-'' @ showNat (nat (- i)) else showNat (nat i))"

text \<open>\<^verbatim>\<open>xs.join(sep)\<close> on an array of strings.\<close>

fun join :: "jsstring \<Rightarrow> jsstring list \<Rightarrow> jsstring" where
  "join sep [] = []"
| "join sep [x] = x"
| "join sep (x # y # ys) = x @ sep @ join sep (y # ys)"


text \<open>
  White space as \<^verbatim>\<open>\s\<close> and \<^verbatim>\<open>trim\<close> read it: the code units of ECMAScript's
  WhiteSpace and LineTerminator productions.
\<close>

definition isWhiteSpace :: "16 word \<Rightarrow> bool" where
  "isWhiteSpace c =
     (c = 0x09 \<or> c = 0x0A \<or> c = 0x0B \<or> c = 0x0C \<or> c = 0x0D \<or> c = 0x20 \<or> c = 0xA0 \<or>
      c = 0x1680 \<or> (0x2000 \<le> c \<and> c \<le> 0x200A) \<or> c = 0x2028 \<or> c = 0x2029 \<or>
      c = 0x202F \<or> c = 0x205F \<or> c = 0x3000 \<or> c = 0xFEFF)"

definition trim :: "jsstring \<Rightarrow> jsstring" where
  "trim s = rev (dropWhile isWhiteSpace (rev (dropWhile isWhiteSpace s)))"

text \<open>
  The lowering the parser applies to the concerns text before it looks for its three
  fixed phrases: \<^verbatim>\<open>toLowerCase\<close> on the ASCII letters, every other code unit left
  as it is. JavaScript also lowers the cased letters outside ASCII. For the parser's
  phrases the difference cannot matter: the only characters outside ASCII whose lower
  case holds an ASCII letter are U+0130 (\<^verbatim>\<open>i\<close> followed by U+0307) and U+212A
  (\<^verbatim>\<open>k\<close>); no phrase holds a \<^verbatim>\<open>k\<close>, and none ends in \<^verbatim>\<open>i\<close>. The adapters
  lower text of any content and search it for words that hold a \<^verbatim>\<open>k\<close>; they take
  the lowering of the runtime as an argument (see \<open>runtime\<close> below).
\<close>

definition toLowerCase :: "jsstring \<Rightarrow> jsstring" where
  "toLowerCase s = map (\<lambda>c. if 0x41 \<le> c \<and> c \<le> 0x5A then c + 0x20 else c) s"

text \<open>\<^verbatim>\<open>s.includes(p)\<close>: \<open>p\<close> starts at some position of \<open>s\<close>.\<close>

fun js_includes :: "jsstring \<Rightarrow> jsstring \<Rightarrow> bool" where
  "js_includes [] p = (p = [])"
| "js_includes (c # cs) p = (prefix p (c # cs) \<or> js_includes cs p)"

section \<open>JavaScript numbers\<close>

text \<open>
  A JavaScript number is an IEEE 754 double. A finite double is modelled by the rational
  it denotes, and \<open>fl\<close> rounds a rational to the nearest double: 53 significant bits,
  a tie to the even significand, gradual underflow below \<open>2^-1022\<close>. The sum,
  difference, product and quotient of two doubles are \<open>fl\<close> of the exact result.
  Results beyond the largest finite double are not modelled. \<open>binaryExponent x\<close> is
  the \<open>e\<close> with \<open>2^e \<le> |x| < 2^(e+1)\<close>.
\<close>

definition pow2 :: "int \<Rightarrow> rat" where
  "pow2 k = (if 0 \<le> k then 2 ^ nat k else 1 / 2 ^ nat (- k))"

definition binaryExponent :: "rat \<Rightarrow> int" where
  "binaryExponent x =
     (let n = fst (quotient_of \<bar>x\<bar>); m = snd (quotient_of \<bar>x\<bar>);
          d = bitlen n - bitlen m
      in if pow2 d \<le> \<bar>x\<bar> then d else d - 1)"

definition roundHalfEven :: "rat \<Rightarrow> int" where
  "roundHalfEven q =
     (let f = \<lfloor>q\<rfloor>; r = q - rat_of_int f
      in if r < 1 / 2 then f else if 1 / 2 < r then f + 1 else if even f then f else f + 1)"

definition fl :: "rat \<Rightarrow> rat" where
  "fl x =
     (if x = 0 then 0
      else let u = pow2 (max (binaryExponent x) (- 1022) - 52)
           in rat_of_int (roundHalfEven (x / u)) * u)"

text \<open>
  Two built-in functions of the JavaScript runtime that the adapters apply to text and
  numbers of any content: \<^verbatim>\<open>String.prototype.toLowerCase\<close>, and the conversion of
  a number to a string in a template literal. They are arguments of the adapters, so
  what is proved of the adapters holds whatever these functions return.
\<close>

record runtime =
  lowerCase :: "jsstring \<Rightarrow> jsstring"
  numberToString :: "rat \<Rightarrow> jsstring"

section \<open>Exceptions and the process environment\<close>

text \<open>
  A thrown \<^verbatim>\<open>Error\<close> with its message. A computation that can throw returns
  \<open>Inl\<close> of the error or \<open>Inr\<close> of its value; \<open>try_catch\<close> is
  \<^verbatim>\<open>try { body } catch (error) { handler }\<close>.
\<close>

datatype error = Error (message: jsstring)

definition try_catch :: "error + 'a \<Rightarrow> (error \<Rightarrow> error + 'a) \<Rightarrow> error + 'a" where
  "try_catch body handler = (case body of Inr v \<Rightarrow> Inr v | Inl e \<Rightarrow> handler e)"

text \<open>
  The variables of \<^verbatim>\<open>process.env\<close> the program reads: a string, or \<open>None\<close> when the
  variable is not set. \<open>falsy v\<close> is \<^verbatim>\<open>!v\<close>: unset or the empty string.
\<close>

record env =
  REDDIT_CLIENT_ID :: "jsstring option"
  REDDIT_CLIENT_SECRET :: "jsstring option"
  REDDIT_USER_AGENT :: "jsstring option"
  SERPER_API_KEY :: "jsstring option"
  ANTHROPIC_API_KEY :: "jsstring option"

definition falsy :: "jsstring option \<Rightarrow> bool" where
  "falsy v = (case v of None \<Rightarrow> True | Some s \<Rightarrow> s = [])"

text \<open>\<^verbatim>\<open>v || ''\<close> for a string that may be absent.\<close>

definition orEmpty :: "jsstring option \<Rightarrow> jsstring" where
  "orEmpty v = (case v of None \<Rightarrow> [] | Some s \<Rightarrow> s)"

text \<open>\<^verbatim>\<open>v || 0\<close> for a number that may be absent.\<close>

definition orZero :: "int option \<Rightarrow> int" where
  "orZero v = (case v of None \<Rightarrow> 0 | Some n \<Rightarrow> n)"

section \<open>What the external services return\<close>

text \<open>
  A submission as the Reddit client returns it. Absent fields are \<open>None\<close>;
  \<open>author\<close> is the name of the author object, \<open>None\<close> when the post has none. The
  field \<^verbatim>\<open>id\<close> is \<open>raw_id\<close> here.
\<close>

record rawPost =
  raw_id :: jsstring
  title :: jsstring
  selftext :: "jsstring option"
  ups :: "int option"
  downs :: "int option"
  score :: "int option"
  num_comments :: "int option"
  permalink :: jsstring
  created_utc :: int
  author :: "jsstring option"
  url :: "jsstring option"

text \<open>
  The client \<^verbatim>\<open>new snoowrap(...)\<close> gives: a search of one subreddit, by subreddit name,
  query and time filter (the sort order and the limit of 10 are constants of the call),
  which returns submissions or throws. Constructing the client may throw as well, so
  the adapter is given \<open>error + redditClient\<close>.
\<close>

type_synonym redditClient = "jsstring \<Rightarrow> jsstring \<Rightarrow> jsstring \<Rightarrow> error + rawPost list"

text \<open>
  One entry of \<^verbatim>\<open>response.data.organic\<close> of the search service; absent fields
  are \<open>None\<close>.
\<close>

record organicItem =
  title :: "jsstring option"
  link :: "jsstring option"
  snippet :: "jsstring option"
  date :: "jsstring option"

text \<open>
  The HTTP client and the URL parser the web adapter calls. \<open>axios q n\<close> is the POST of
  query \<open>q\<close> asking for \<open>n\<close> results: it throws, or it returns the organic entries,
  \<open>None\<close> when the response has no data or no such list. \<open>hostname u\<close> is
  \<^verbatim>\<open>new URL(u).hostname\<close>, which throws on a string that is no URL.
\<close>

record webApi =
  axios :: "jsstring \<Rightarrow> nat \<Rightarrow> error + organicItem list option"
  hostname :: "jsstring \<Rightarrow> error + jsstring"

text \<open>
  One block of the reply of the text-generation call: a text block, or a block of
  another type.
\<close>

datatype contentBlock = TextBlock jsstring | OtherBlock

section \<open>The data the adapters hand to the aggregator\<close>

text \<open>
  The record \<^verbatim>\<open>extractPostData\<close> builds for a Reddit post. Scores and comment counts
  are the integers the API sends, each held in a double (so an integer that is no
  double does not occur). The field \<^verbatim>\<open>id\<close> is \<open>post_id\<close> here.
\<close>

record post =
  post_id :: jsstring
  title :: jsstring
  body :: jsstring
  subreddit :: jsstring
  upvotes :: int
  downvotes :: int
  score :: int
  numComments :: int
  permalink :: jsstring
  created :: jsstring
  author :: jsstring
  url :: jsstring

text \<open>
  The object \<^verbatim>\<open>extractSentiment\<close> returns: two numbers and a label.
\<close>

record sentimentInfo =
  avgScore :: rat
  totalEngagement :: rat
  sentiment :: jsstring

text \<open>What the exported \<^verbatim>\<open>searchReddit\<close> returns.\<close>

record redditData =
  posts :: "post list"
  formattedText :: jsstring
  sentiment :: sentimentInfo

text \<open>One web search hit, as \<^verbatim>\<open>executeSerperSearch\<close> builds it.\<close>

record searchResult =
  name :: jsstring
  url :: jsstring
  snippet :: jsstring
  datePublished :: "jsstring option"
  displayUrl :: jsstring

text \<open>What the exported \<^verbatim>\<open>searchSerper\<close> (alias \<^verbatim>\<open>searchBing\<close>) returns.\<close>

record bingData =
  linkedin :: "searchResult list"
  twitter :: "searchResult list"
  reviews :: "searchResult list"
  blogs :: "searchResult list"
  formattedText :: jsstring
  totalResults :: nat

section \<open>The aggregated corpus\<close>

record redditBucket =
  posts :: "post list"
  totalMentions :: nat
  sentiment :: sentimentInfo
  formattedText :: jsstring

record webBucket =
  results :: "searchResult list"
  totalResults :: nat

record breakdown =
  reddit :: nat
  linkedin :: nat
  twitter :: nat
  reviews :: nat
  blogs :: nat

record stats =
  totalSources :: nat
  dateRange :: jsstring
  platforms :: "jsstring list"
  platformBreakdown :: breakdown
  redditSentiment :: jsstring
  redditAvgScore :: rat

record corpus =
  reddit :: redditBucket
  linkedin :: webBucket
  twitter :: webBucket
  reviews :: webBucket
  blogs :: webBucket
  aggregateStats :: stats
  dataSource :: jsstring
  formattedForClaude :: jsstring

section \<open>DataAggregator\<close>

text \<open>
  \<^verbatim>\<open>calculateMetrics\<close>: the total, the list of platforms with data (pushed in the fixed
  order Reddit, LinkedIn, Twitter/X, Review Sites, Blogs) and the per-platform counts.
\<close>

definition calculateMetrics ::
  "redditBucket \<Rightarrow> webBucket \<Rightarrow> webBucket \<Rightarrow> webBucket \<Rightarrow> webBucket \<Rightarrow> jsstring \<Rightarrow> stats" where
  "calculateMetrics rd li tw rv bl timeRange =
     \<lparr> totalSources =
         totalMentions rd + webBucket.totalResults li + webBucket.totalResults tw +
         webBucket.totalResults rv + webBucket.totalResults bl,
       dateRange = timeRange,
       platforms =
         (if totalMentions rd > 0 then [ascii ''Reddit''] else []) @
         (if webBucket.totalResults li > 0 then [ascii ''LinkedIn''] else []) @
         (if webBucket.totalResults tw > 0 then [ascii ''Twitter/X''] else []) @
         (if webBucket.totalResults rv > 0 then [ascii ''Review Sites''] else []) @
         (if webBucket.totalResults bl > 0 then [ascii ''Blogs''] else []),
       platformBreakdown =
         \<lparr> breakdown.reddit = totalMentions rd,
           breakdown.linkedin = webBucket.totalResults li,
           breakdown.twitter = webBucket.totalResults tw,
           breakdown.reviews = webBucket.totalResults rv,
           breakdown.blogs = webBucket.totalResults bl \<rparr>,
       redditSentiment = sentimentInfo.sentiment (redditBucket.sentiment rd),
       redditAvgScore = avgScore (redditBucket.sentiment rd) \<rparr>"

text \<open>
  \<^verbatim>\<open>determineDataSource(reddit, bingData)\<close>: it reads the forum bucket's count and the
  web adapter's own \<^verbatim>\<open>totalResults\<close>.
\<close>

definition determineDataSource :: "redditBucket \<Rightarrow> bingData \<Rightarrow> jsstring" where
  "determineDataSource rd bing =
     (let hasReddit = totalMentions rd > 0;
          hasBing = bingData.totalResults bing > 0
      in if hasReddit \<and> hasBing then ascii ''real-time''
         else if hasReddit \<or> hasBing then ascii ''partial''
         else ascii ''fallback'')"

text \<open>
  The rows \<^verbatim>\<open>forEach((result, index) => ...)\<close> appends for one web bucket: a 1-based
  index, the name, the URL and the snippet in double quotes.
\<close>

definition formatRow :: "nat \<times> searchResult \<Rightarrow> jsstring" where
  "formatRow ir =
     showNat (fst ir + 1) @ ascii ''. '' @ name (snd ir) @ nl @
     ascii ''   URL: '' @ searchResult.url (snd ir) @ nl @
     ascii ''   Snippet: '' @ dq @ snippet (snd ir) @ dq @ nl @ nl"

definition formatRows :: "searchResult list \<Rightarrow> jsstring" where
  "formatRows rs = concat (map formatRow (zip [0 ..< length rs] rs))"

definition formatBucket :: "jsstring \<Rightarrow> jsstring \<Rightarrow> webBucket \<Rightarrow> jsstring" where
  "formatBucket heading unit_text b =
     (if webBucket.totalResults b > 0
      then heading @ ascii '' ('' @ showNat (webBucket.totalResults b) @ unit_text @ nl @ nl @
           formatRows (results b)
      else [])"

definition rule_line :: jsstring where
  "rule_line = ascii ''====================================''"

definition formatForClaudeAnalysis ::
  "redditBucket \<Rightarrow> webBucket \<Rightarrow> webBucket \<Rightarrow> webBucket \<Rightarrow> webBucket \<Rightarrow>
   jsstring \<Rightarrow> jsstring \<Rightarrow> stats \<Rightarrow> jsstring" where
  "formatForClaudeAnalysis rd li tw rv bl brand timeRange st =
     ascii ''You are analyzing REAL social listening data collected from APIs for the brand: '' @
       brand @ nl @ nl @
     ascii ''TIME RANGE: Last '' @ timeRange @ nl @
     ascii ''TOTAL SOURCES: '' @ showNat (totalSources st) @ ascii '' mentions across '' @
       showNat (length (platforms st)) @ ascii '' platforms'' @ nl @
     ascii ''PLATFORMS: '' @ join (ascii '', '') (platforms st) @ nl @ nl @
     rule_line @ nl @
     ascii ''PLATFORM BREAKDOWN:'' @ nl @
     ascii ''- Reddit: '' @ showNat (breakdown.reddit (platformBreakdown st)) @
       ascii '' posts (avg sentiment: '' @ redditSentiment st @ ascii '')'' @ nl @
     ascii ''- LinkedIn: '' @ showNat (breakdown.linkedin (platformBreakdown st)) @
       ascii '' results'' @ nl @
     ascii ''- Twitter/X: '' @ showNat (breakdown.twitter (platformBreakdown st)) @
       ascii '' results'' @ nl @
     ascii ''- Review Sites: '' @ showNat (breakdown.reviews (platformBreakdown st)) @
       ascii '' results'' @ nl @
     ascii ''- Blogs: '' @ showNat (breakdown.blogs (platformBreakdown st)) @
       ascii '' results'' @ nl @
     rule_line @ nl @ nl @
     (if length (redditBucket.formattedText rd) > 0
      then redditBucket.formattedText rd @ nl @ nl else []) @
     formatBucket (ascii ''LINKEDIN DATA'') (ascii '' results):'') li @
     formatBucket (ascii ''TWITTER/X DATA'') (ascii '' results):'') tw @
     formatBucket (ascii ''REVIEW SITES DATA'')
       (ascii '' results from G2, Capterra, TrustRadius):'') rv @
     formatBucket (ascii ''BLOGS & FORUMS DATA'') (ascii '' results):'') bl @
     rule_line @ nl @ nl @
     ascii ''ANALYSIS INSTRUCTIONS:'' @ nl @
     ascii ''Based on the REAL data above ('' @ showNat (totalSources st) @
       ascii '' total sources), provide a comprehensive social listening analysis.'' @ nl @
     ascii ''All source citations MUST reference the actual URLs provided above.'' @ nl @
     ascii ''Focus on actual sentiment, trends, and insights found in the real data.'' @ nl @ nl"

text \<open>
  The static method \<^verbatim>\<open>DataAggregator.aggregateResults\<close>. The adapters always return
  arrays and a sentiment object, so the defaults \<^verbatim>\<open>x || []\<close> and
  \<^verbatim>\<open>x ? x.length : 0\<close> of the source are the value itself and its length.
\<close>

definition DataAggregator_aggregateResults ::
  "redditData \<Rightarrow> bingData \<Rightarrow> jsstring \<Rightarrow> jsstring \<Rightarrow> corpus" where
  "DataAggregator_aggregateResults rdata bing brand timeRange =
     (let rd = \<lparr> redditBucket.posts = redditData.posts rdata,
                 totalMentions = length (redditData.posts rdata),
                 redditBucket.sentiment = redditData.sentiment rdata,
                 redditBucket.formattedText = redditData.formattedText rdata \<rparr>;
          li = \<lparr> results = bingData.linkedin bing,
                 webBucket.totalResults = length (bingData.linkedin bing) \<rparr>;
          tw = \<lparr> results = bingData.twitter bing,
                 webBucket.totalResults = length (bingData.twitter bing) \<rparr>;
          rv = \<lparr> results = bingData.reviews bing,
                 webBucket.totalResults = length (bingData.reviews bing) \<rparr>;
          bl = \<lparr> results = bingData.blogs bing,
                 webBucket.totalResults = length (bingData.blogs bing) \<rparr>;
          st = calculateMetrics rd li tw rv bl timeRange
      in \<lparr> corpus.reddit = rd, corpus.linkedin = li, corpus.twitter = tw,
           corpus.reviews = rv, corpus.blogs = bl,
           aggregateStats = st,
           dataSource = determineDataSource rd bing,
           formattedForClaude = formatForClaudeAnalysis rd li tw rv bl brand timeRange st \<rparr>)"

text \<open>
  The filter callback of \<^verbatim>\<open>deduplicateEntries\<close>, run over one bucket with the running
  \<^verbatim>\<open>seenUrls\<close> set: a result whose URL is in the set is dropped, any other is kept and
  its URL added. It returns the kept results and the set afterwards.
\<close>

fun filterSeen :: "jsstring set \<Rightarrow> searchResult list \<Rightarrow> searchResult list \<times> jsstring set" where
  "filterSeen seen [] = ([], seen)"
| "filterSeen seen (r # rs) =
     (if searchResult.url r \<in> seen then filterSeen seen rs
      else (r # fst (filterSeen (insert (searchResult.url r) seen) rs),
            snd (filterSeen (insert (searchResult.url r) seen) rs)))"

text \<open>
  The body of the \<^verbatim>\<open>forEach\<close> over the platform names: the bucket's results are
  filtered and its count set to the new length. Every bucket of a corpus has a results
  array, so the guard \<^verbatim>\<open>aggregatedData[platform] && aggregatedData[platform].results\<close>
  holds.
\<close>

definition dedupBucket :: "jsstring set \<Rightarrow> webBucket \<Rightarrow> webBucket \<times> jsstring set" where
  "dedupBucket seen b =
     (let kept = fst (filterSeen seen (results b))
      in (b\<lparr>results := kept, webBucket.totalResults := length kept\<rparr>,
          snd (filterSeen seen (results b))))"

text \<open>
  \<^verbatim>\<open>deduplicateEntries\<close>: one fresh set, the platforms
  \<^verbatim>\<open>['linkedin', 'twitter', 'reviews', 'blogs']\<close> in this order, then the total is
  recomputed from the count fields and stored in \<^verbatim>\<open>aggregateStats.totalSources\<close>.
\<close>

definition deduplicateEntries :: "corpus \<Rightarrow> corpus" where
  "deduplicateEntries d =
     (let s0 = {};
          l = dedupBucket s0 (corpus.linkedin d);
          t = dedupBucket (snd l) (corpus.twitter d);
          r = dedupBucket (snd t) (corpus.reviews d);
          b = dedupBucket (snd r) (corpus.blogs d);
          d' = d\<lparr>corpus.linkedin := fst l, corpus.twitter := fst t,
                 corpus.reviews := fst r, corpus.blogs := fst b\<rparr>;
          total = totalMentions (corpus.reddit d') +
                  webBucket.totalResults (corpus.linkedin d') +
                  webBucket.totalResults (corpus.twitter d') +
                  webBucket.totalResults (corpus.reviews d') +
                  webBucket.totalResults (corpus.blogs d')
      in d'\<lparr>aggregateStats := (aggregateStats d')\<lparr>totalSources := total\<rparr>\<rparr>)"

text \<open>The exported \<^verbatim>\<open>aggregateResults\<close>: aggregate, then deduplicate.\<close>

definition aggregateResults :: "redditData \<Rightarrow> bingData \<Rightarrow> jsstring \<Rightarrow> jsstring \<Rightarrow> corpus" where
  "aggregateResults rdata bing brand timeRange =
     deduplicateEntries (DataAggregator_aggregateResults rdata bing brand timeRange)"

section \<open>The Reddit adapter\<close>

definition targetSubreddits :: "jsstring list" where
  "targetSubreddits =
     [ascii ''SaaS'', ascii ''technology'', ascii ''startups'', ascii ''entrepreneur'',
      ascii ''smallbusiness'', ascii ''Entrepreneur'', ascii ''webdev'', ascii ''programming'',
      ascii ''software'', ascii ''business'']"

text \<open>
  The constructor of \<^verbatim>\<open>RedditService\<close>: it throws without credentials, and otherwise
  constructs the client.
\<close>

definition RedditService_new ::
  "jsstring option \<Rightarrow> jsstring option \<Rightarrow> error + redditClient \<Rightarrow> error + redditClient" where
  "RedditService_new clientId clientSecret snoowrap =
     (if falsy clientId \<or> falsy clientSecret
      then Inl (Error (ascii ''Reddit API credentials are required''))
      else snoowrap)"

text \<open>
  \<^verbatim>\<open>extractPostData\<close>. \<open>toISOString\<close> renders the creation time, given in
  milliseconds, as \<^verbatim>\<open>Date.prototype.toISOString\<close> does.
\<close>

definition extractPostData :: "(int \<Rightarrow> jsstring) \<Rightarrow> rawPost \<Rightarrow> jsstring \<Rightarrow> post" where
  "extractPostData toISOString p sub =
     \<lparr> post_id = raw_id p,
       post.title = rawPost.title p,
       body = orEmpty (selftext p),
       subreddit = sub,
       upvotes = orZero (ups p),
       downvotes = orZero (downs p),
       post.score = orZero (rawPost.score p),
       numComments = orZero (num_comments p),
       post.permalink = ascii ''https://reddit.com'' @ rawPost.permalink p,
       created = toISOString (created_utc p * 1000),
       post.author = (case rawPost.author p of Some a \<Rightarrow> a | None \<Rightarrow> ascii ''[deleted]''),
       post.url = orEmpty (rawPost.url p) \<rparr>"

text \<open>\<^verbatim>\<open>searchSubreddit\<close>: a failed search is logged and gives no posts.\<close>

definition searchSubreddit ::
  "redditClient \<Rightarrow> (int \<Rightarrow> jsstring) \<Rightarrow> jsstring \<Rightarrow> jsstring \<Rightarrow> jsstring \<Rightarrow> post list" where
  "searchSubreddit client toISOString brand sub timeFilter =
     (case client sub brand timeFilter of
        Inr found \<Rightarrow> map (\<lambda>p. extractPostData toISOString p sub) found
      | Inl e \<Rightarrow> [])"

definition parseTimeRange :: "runtime \<Rightarrow> jsstring \<Rightarrow> jsstring" where
  "parseTimeRange rt timeRange =
     (let rangeLower = lowerCase rt timeRange
      in if js_includes rangeLower (ascii ''24'') \<or> js_includes rangeLower (ascii ''hour'')
         then ascii ''day''
         else if js_includes rangeLower (ascii ''7'') \<or> js_includes rangeLower (ascii ''week'')
         then ascii ''week''
         else if js_includes rangeLower (ascii ''30'') \<or> js_includes rangeLower (ascii ''month'')
         then ascii ''month''
         else if js_includes rangeLower (ascii ''year'')
         then ascii ''year''
         else ascii ''week'')"

text \<open>The filter callback of \<^verbatim>\<open>filterByRelevance\<close>, and the method.\<close>

definition relevantPost :: "runtime \<Rightarrow> jsstring \<Rightarrow> post \<Rightarrow> bool" where
  "relevantPost rt brandLower p =
     (if post.author p = ascii ''[deleted]'' \<or> js_includes (post.title p) (ascii ''[removed]'')
      then False
      else let titleLower = lowerCase rt (post.title p);
               bodyLower = lowerCase rt (body p);
               containsBrand = js_includes titleLower brandLower \<or> js_includes bodyLower brandLower
           in if \<not> containsBrand then False
              else if post.score p < 1 \<and> numComments p = 0 then False
              else True)"

definition filterByRelevance :: "runtime \<Rightarrow> post list \<Rightarrow> jsstring \<Rightarrow> post list" where
  "filterByRelevance rt ps brand =
     (let brandLower = lowerCase rt brand in filter (relevantPost rt brandLower) ps)"

text \<open>
  \<^verbatim>\<open>Array.prototype.sort\<close> with a comparator that returns a number: the sort is
  stable, an element \<open>a\<close> goes before \<open>b\<close> when the comparator is negative on
  \<open>(a, b)\<close> and after it when it is positive. Insertion from the right gives this
  order for every consistent comparator.
\<close>

fun insertBy :: "('a \<Rightarrow> 'a \<Rightarrow> rat) \<Rightarrow> 'a \<Rightarrow> 'a list \<Rightarrow> 'a list" where
  "insertBy cmp x [] = [x]"
| "insertBy cmp x (y # ys) = (if cmp x y \<le> 0 then x # y # ys else y # insertBy cmp x ys)"

definition js_sort :: "('a \<Rightarrow> 'a \<Rightarrow> rat) \<Rightarrow> 'a list \<Rightarrow> 'a list" where
  "js_sort cmp xs = foldr (insertBy cmp) xs []"

text \<open>
  The comparator of \<^verbatim>\<open>sortByEngagement\<close>, in the double arithmetic of the source,
  and the method.
\<close>

definition compareEngagement :: "post \<Rightarrow> post \<Rightarrow> rat" where
  "compareEngagement a b =
     (let engagementA = fl (rat_of_int (post.score a) + fl (rat_of_int (numComments a) * 2));
          engagementB = fl (rat_of_int (post.score b) + fl (rat_of_int (numComments b) * 2))
      in fl (engagementB - engagementA))"

definition sortByEngagement :: "post list \<Rightarrow> post list" where
  "sortByEngagement ps = js_sort compareEngagement ps"

text \<open>
  The engagement of a post in the words of the specification, as an integer, and the
  range of scores and comment counts in which the doubles of the comparator are these
  integers: no sum or difference the comparator forms reaches \<open>2^53\<close>.
\<close>

definition engagement :: "post \<Rightarrow> int" where
  "engagement p = post.score p + 2 * numComments p"

definition safeCounts :: "post \<Rightarrow> bool" where
  "safeCounts p = (\<bar>post.score p\<bar> \<le> 2 ^ 50 \<and> \<bar>numComments p\<bar> \<le> 2 ^ 50)"

text \<open>
  \<^verbatim>\<open>extractSentiment\<close>, in the double arithmetic of the source. The two
  \<^verbatim>\<open>reduce\<close> calls add from 0; \<^verbatim>\<open>Math.round\<close> gives the nearest integer, a tie
  upwards, and is exact.
\<close>

definition extractSentiment :: "post list \<Rightarrow> sentimentInfo" where
  "extractSentiment ps =
     (if length ps = 0
      then \<lparr> avgScore = 0, totalEngagement = 0, sentimentInfo.sentiment = ascii ''neutral'' \<rparr>
      else let totalScore = foldl (\<lambda>sum p. fl (sum + rat_of_int (post.score p))) 0 ps;
               avg = fl (totalScore / rat_of_nat (length ps));
               engaged = foldl (\<lambda>sum p. fl (sum + rat_of_int (numComments p))) 0 ps;
               label = (if avg > 10 then ascii ''positive''
                        else if avg < 0 then ascii ''negative''
                        else ascii ''neutral'')
           in \<lparr> avgScore = fl (rat_of_int \<lfloor>fl (avg * 10) + 1 / 2\<rfloor> / 10),
                totalEngagement = engaged,
                sentimentInfo.sentiment = label \<rparr>)"

text \<open>
  \<^verbatim>\<open>RedditService.formatForClaude\<close>: a fixed sentence for no posts, else a header
  and one block per post. The length and the index are array sizes, written in decimal
  digits; the score, the comment count and the average are numbers the runtime converts.
\<close>

definition formatPost :: "runtime \<Rightarrow> nat \<times> post \<Rightarrow> jsstring" where
  "formatPost rt ip =
     showNat (fst ip + 1) @ ascii ''. [r/'' @ subreddit (snd ip) @ ascii ''] '' @
       post.title (snd ip) @ nl @
     ascii ''   Score: '' @ numberToString rt (rat_of_int (post.score (snd ip))) @
       ascii '' | Comments: '' @ numberToString rt (rat_of_int (numComments (snd ip))) @
       ascii '' | '' @ post.permalink (snd ip) @ nl @
     (if length (body (snd ip)) > 0
      then ascii ''   Snippet: '' @ dq @
           map (\<lambda>c. if c = 0x0A then 0x20 else c) (take 200 (body (snd ip))) @
           (if length (body (snd ip)) > 200 then ascii ''...'' else []) @ dq @ nl
      else []) @
     nl"

definition RedditService_formatForClaude :: "runtime \<Rightarrow> post list \<Rightarrow> jsstring" where
  "RedditService_formatForClaude rt ps =
     (if length ps = 0 then ascii ''No Reddit posts found for this brand.''
      else let found = extractSentiment ps
           in ascii ''REDDIT DATA ('' @ showNat (length ps) @ ascii '' posts, avg score: '' @
              numberToString rt (avgScore found) @ ascii '', sentiment: '' @
              sentimentInfo.sentiment found @ ascii ''):'' @ nl @ nl @
              concat (map (formatPost rt) (zip [0 ..< length ps] ps)))"

text \<open>
  The method \<^verbatim>\<open>RedditService.searchReddit\<close>: every target subreddit is searched,
  the posts are flattened, filtered, sorted, and the first 20 returned. An exception in
  its body is thrown again with the prefix \<^verbatim>\<open>Reddit search failed: \<close>.
\<close>

definition RedditService_searchReddit ::
  "runtime \<Rightarrow> redditClient \<Rightarrow> (int \<Rightarrow> jsstring) \<Rightarrow> jsstring \<Rightarrow> jsstring \<Rightarrow>
   error + post list" where
  "RedditService_searchReddit rt client toISOString brand timeRange =
     try_catch
       (let timeFilter = parseTimeRange rt timeRange;
            found = map (\<lambda>sub. searchSubreddit client toISOString brand sub timeFilter)
                      targetSubreddits;
            allPosts = concat found;
            relevantPosts = filterByRelevance rt allPosts brand;
            sortedPosts = sortByEngagement relevantPosts
        in Inr (take 20 sortedPosts))
       (\<lambda>e. Inl (Error (ascii ''Reddit search failed: '' @ message e)))"

text \<open>
  The exported \<^verbatim>\<open>searchReddit\<close>: without credentials it returns the unavailable
  record, else it runs the service, and any exception of that gives the error record.
\<close>

definition searchReddit ::
  "runtime \<Rightarrow> env \<Rightarrow> error + redditClient \<Rightarrow> (int \<Rightarrow> jsstring) \<Rightarrow> jsstring \<Rightarrow>
   jsstring \<Rightarrow> error + redditData" where
  "searchReddit rt ev snoowrap toISOString brand timeRange =
     (let clientId = REDDIT_CLIENT_ID ev;
          clientSecret = REDDIT_CLIENT_SECRET ev
      in if falsy clientId \<or> falsy clientSecret
         then Inr \<lparr> redditData.posts = [],
                    redditData.formattedText =
                      ascii ''Reddit data unavailable (API credentials not configured)'',
                    redditData.sentiment =
                      \<lparr> avgScore = 0, totalEngagement = 0,
                        sentimentInfo.sentiment = ascii ''neutral'' \<rparr> \<rparr>
         else try_catch
                (case RedditService_new clientId clientSecret snoowrap of
                   Inl e \<Rightarrow> Inl e
                 | Inr service \<Rightarrow>
                     (case RedditService_searchReddit rt service toISOString brand timeRange of
                        Inl e \<Rightarrow> Inl e
                      | Inr found \<Rightarrow>
                          Inr \<lparr> redditData.posts = found,
                                redditData.formattedText =
                                  RedditService_formatForClaude rt found,
                                redditData.sentiment = extractSentiment found \<rparr>))
                (\<lambda>e. Inr \<lparr> redditData.posts = [],
                            redditData.formattedText =
                              ascii ''Reddit search error: '' @ message e,
                            redditData.sentiment =
                              \<lparr> avgScore = 0, totalEngagement = 0,
                                sentimentInfo.sentiment = ascii ''neutral'' \<rparr> \<rparr>))"

section \<open>The web search adapter\<close>

text \<open>The constructor of \<^verbatim>\<open>SerperSearchService\<close> throws without a key.\<close>

definition SerperSearchService_new :: "jsstring option \<Rightarrow> error + jsstring" where
  "SerperSearchService_new apiKey =
     (if falsy apiKey then Inl (Error (ascii ''Serper API key is required''))
      else Inr (orEmpty apiKey))"

text \<open>
  The callback of \<^verbatim>\<open>response.data.organic.map\<close>: it throws when the link is no URL.
\<close>

definition toSearchResult :: "webApi \<Rightarrow> organicItem \<Rightarrow> error + searchResult" where
  "toSearchResult api item =
     (case (if falsy (link item) then Inr [] else hostname api (orEmpty (link item))) of
        Inl e \<Rightarrow> Inl e
      | Inr host \<Rightarrow>
          Inr \<lparr> name = orEmpty (organicItem.title item),
                searchResult.url = orEmpty (link item),
                searchResult.snippet = orEmpty (organicItem.snippet item),
                datePublished = (if falsy (date item) then None else date item),
                displayUrl = host \<rparr>)"

text \<open>\<^verbatim>\<open>xs.map(f)\<close> for a callback that can throw: the first exception ends the map.\<close>

fun mapThrowing :: "('a \<Rightarrow> error + 'b) \<Rightarrow> 'a list \<Rightarrow> error + 'b list" where
  "mapThrowing f [] = Inr []"
| "mapThrowing f (x # xs) =
     (case f x of
        Inl e \<Rightarrow> Inl e
      | Inr y \<Rightarrow> (case mapThrowing f xs of Inl e \<Rightarrow> Inl e | Inr ys \<Rightarrow> Inr (y # ys)))"

text \<open>
  \<^verbatim>\<open>executeSerperSearch\<close>: at most 10 results are asked for; a response without
  organic entries gives none; every exception is logged and gives none.
\<close>

definition executeSerperSearch :: "webApi \<Rightarrow> jsstring \<Rightarrow> nat \<Rightarrow> searchResult list" where
  "executeSerperSearch api query num =
     (case try_catch
             (case axios api query (min num 10) of
                Inl e \<Rightarrow> Inl e
              | Inr None \<Rightarrow> Inr []
              | Inr (Some organic) \<Rightarrow> mapThrowing (toSearchResult api) organic)
             (\<lambda>e. Inr [])
      of Inr found \<Rightarrow> found | Inl e \<Rightarrow> [])"

text \<open>
  \<^verbatim>\<open>deduplicateResults\<close>: the same filter callback as the aggregator's pass, on a
  fresh set.
\<close>

definition deduplicateResults :: "searchResult list \<Rightarrow> searchResult list" where
  "deduplicateResults found = fst (filterSeen {} found)"

text \<open>
  The four platform searches share one body: the queries run one after the other with
  5 results each, the results are appended and deduplicated. No step of the body
  throws, so its \<^verbatim>\<open>catch\<close>, which returns the empty list, is never entered.
\<close>

definition searchQueries :: "webApi \<Rightarrow> jsstring list \<Rightarrow> searchResult list" where
  "searchQueries api queries =
     deduplicateResults (concat (map (\<lambda>q. executeSerperSearch api q 5) queries))"

definition linkedinQueries :: "jsstring \<Rightarrow> jsstring list" where
  "linkedinQueries brand =
     [dq @ brand @ dq @ ascii '' site:linkedin.com/posts'',
      dq @ brand @ ascii '' feedback'' @ dq @ ascii '' site:linkedin.com'',
      dq @ brand @ ascii '' review'' @ dq @ ascii '' site:linkedin.com'']"

definition twitterQueries :: "jsstring \<Rightarrow> jsstring list" where
  "twitterQueries brand =
     [dq @ brand @ dq @ ascii '' (site:twitter.com OR site:x.com)'',
      dq @ brand @ ascii '' feedback'' @ dq @ ascii '' site:twitter.com'',
      dq @ brand @ ascii '' complaint'' @ dq @ ascii '' site:x.com'']"

definition reviewQueries :: "jsstring \<Rightarrow> jsstring list" where
  "reviewQueries brand =
     [dq @ brand @ dq @ ascii '' site:g2.com'',
      dq @ brand @ dq @ ascii '' site:capterra.com'',
      dq @ brand @ ascii '' review'' @ dq @ ascii '' site:trustradius.com'']"

definition blogQueries :: "jsstring \<Rightarrow> jsstring list" where
  "blogQueries brand =
     [dq @ brand @ dq @ ascii '' site:medium.com'',
      dq @ brand @ dq @ ascii '' site:dev.to'',
      dq @ brand @ dq @ ascii '' site:news.ycombinator.com'']"

definition searchLinkedIn :: "webApi \<Rightarrow> jsstring \<Rightarrow> searchResult list" where
  "searchLinkedIn api brand = searchQueries api (linkedinQueries brand)"

definition searchTwitter :: "webApi \<Rightarrow> jsstring \<Rightarrow> searchResult list" where
  "searchTwitter api brand = searchQueries api (twitterQueries brand)"

definition searchReviewSites :: "webApi \<Rightarrow> jsstring \<Rightarrow> searchResult list" where
  "searchReviewSites api brand = searchQueries api (reviewQueries brand)"

definition searchBlogs :: "webApi \<Rightarrow> jsstring \<Rightarrow> searchResult list" where
  "searchBlogs api brand = searchQueries api (blogQueries brand)"

text \<open>\<^verbatim>\<open>SerperSearchService.formatForClaude\<close>.\<close>

definition serperRow :: "nat \<times> searchResult \<Rightarrow> jsstring" where
  "serperRow ir =
     showNat (fst ir + 1) @ ascii ''. '' @ name (snd ir) @ nl @
     ascii ''   '' @ searchResult.url (snd ir) @ nl @
     ascii ''   Snippet: '' @ dq @ searchResult.snippet (snd ir) @ dq @ nl @ nl"

definition serperBlock :: "jsstring \<Rightarrow> searchResult list \<Rightarrow> jsstring" where
  "serperBlock heading found =
     (if length found > 0
      then nl @ heading @ ascii '' ('' @ showNat (length found) @ ascii '' results):'' @ nl @
           concat (map serperRow (zip [0 ..< length found] found))
      else [])"

definition SerperSearchService_formatForClaude ::
  "searchResult list \<Rightarrow> searchResult list \<Rightarrow> searchResult list \<Rightarrow> searchResult list \<Rightarrow>
   jsstring" where
  "SerperSearchService_formatForClaude li tw rv bl =
     (let formatted =
            serperBlock (ascii ''LINKEDIN DATA'') li @
            serperBlock (ascii ''TWITTER/X DATA'') tw @
            serperBlock (ascii ''REVIEW SITES DATA'') rv @
            serperBlock (ascii ''BLOGS & FORUMS DATA'') bl
      in if formatted = [] then ascii ''No web search results found.'' else formatted)"

text \<open>
  The exported \<^verbatim>\<open>searchSerper\<close> (also exported as \<^verbatim>\<open>searchGoogle\<close> and
  \<^verbatim>\<open>searchBing\<close>): without a key it returns the unavailable record, else it searches
  the platforms asked for, and any exception of that gives the error record.
\<close>

definition searchSerper ::
  "runtime \<Rightarrow> env \<Rightarrow> webApi \<Rightarrow> jsstring \<Rightarrow> jsstring \<Rightarrow> error + bingData" where
  "searchSerper rt ev api brand wanted =
     (let apiKey = SERPER_API_KEY ev
      in if falsy apiKey
         then Inr \<lparr> bingData.linkedin = [], bingData.twitter = [], bingData.reviews = [],
                    bingData.blogs = [],
                    bingData.formattedText =
                      ascii ''Web search data unavailable (Serper API key not configured)'',
                    bingData.totalResults = 0 \<rparr>
         else try_catch
                (case SerperSearchService_new apiKey of
                   Inl e \<Rightarrow> Inl e
                 | Inr service \<Rightarrow>
                     (let everything = (wanted = ascii ''all'');
                          lower = lowerCase rt wanted;
                          li = (if everything \<or> js_includes lower (ascii ''linkedin'')
                                then searchLinkedIn api brand else []);
                          tw = (if everything \<or> js_includes lower (ascii ''twitter'') \<or>
                                   js_includes lower (ascii ''x'')
                                then searchTwitter api brand else []);
                          rv = (if everything \<or> js_includes lower (ascii ''g2'') \<or>
                                   js_includes lower (ascii ''capterra'')
                                then searchReviewSites api brand else []);
                          bl = (if everything \<or> js_includes lower (ascii ''blog'') \<or>
                                   js_includes lower (ascii ''medium'')
                                then searchBlogs api brand else [])
                      in Inr \<lparr> bingData.linkedin = li, bingData.twitter = tw,
                                bingData.reviews = rv, bingData.blogs = bl,
                                bingData.formattedText =
                                  SerperSearchService_formatForClaude li tw rv bl,
                                bingData.totalResults =
                                  length li + length tw + length rv + length bl \<rparr>))
                (\<lambda>e. Inr \<lparr> bingData.linkedin = [], bingData.twitter = [],
                            bingData.reviews = [], bingData.blogs = [],
                            bingData.formattedText = ascii ''Web search error: '' @ message e,
                            bingData.totalResults = 0 \<rparr>))"

section \<open>The response parser\<close>

text \<open>The emoji of the section headers and the bullet, as UTF-16.\<close>

definition chart :: jsstring where
  \<comment> \<open>U+1F4CA, bar chart\<close>
  "chart = [0xD83D, 0xDCCA]"

definition check_mark :: jsstring where
  \<comment> \<open>U+2705, white heavy check mark\<close>
  "check_mark = [0x2705]"

definition warning :: jsstring where
  \<comment> \<open>U+26A0 U+FE0F, warning sign with its variation selector\<close>
  "warning = [0x26A0, 0xFE0F]"

definition fire :: jsstring where
  \<comment> \<open>U+1F525, fire\<close>
  "fire = [0xD83D, 0xDD25]"

definition target :: jsstring where
  \<comment> \<open>U+1F3AF, direct hit\<close>
  "target = [0xD83C, 0xDFAF]"

definition bulb :: jsstring where
  \<comment> \<open>U+1F4A1, light bulb\<close>
  "bulb = [0xD83D, 0xDCA1]"

definition bullet :: jsstring where
  \<comment> \<open>U+2022, bullet\<close>
  "bullet = [0x2022]"

text \<open>
  The five regular expressions have one shape,
  \<^verbatim>\<open>/E\s*\*\*HEADING\*\*(.*?)(?=S1|...|Sn|$)/s\<close>.
  \<open>matchHeaderAt\<close> matches the part before the group at the start of a string and
  returns the rest: the emoji, all white space that follows (\<^verbatim>\<open>\s*\<close> is greedy, and
  giving white space back cannot help, since an asterisk must follow), then the heading
  between double asterisks. \<open>searchHeader\<close> tries the start positions from the left.
  \<open>lazyUntil\<close> is the group with its lookahead: the dot matches every code unit under
  the \<^verbatim>\<open>s\<close> flag, the group is lazy, so it ends at the first position where one of
  the stop strings begins, or at the end of the input. The lookahead holds at the end
  of the input at the latest, so the leftmost header always gives the match, and
  \<open>sectionMatch\<close> is \<^verbatim>\<open>match[1]\<close> when there is a match.
\<close>

definition matchHeaderAt :: "jsstring \<Rightarrow> jsstring \<Rightarrow> jsstring \<Rightarrow> jsstring option" where
  "matchHeaderAt emoji heading s =
     (if prefix emoji s
      then (let r = dropWhile isWhiteSpace (drop (length emoji) s);
                h = ascii ''**'' @ heading @ ascii ''**''
            in if prefix h r then Some (drop (length h) r) else None)
      else None)"

fun searchHeader :: "jsstring \<Rightarrow> jsstring \<Rightarrow> jsstring \<Rightarrow> jsstring option" where
  "searchHeader emoji heading [] = matchHeaderAt emoji heading []"
| "searchHeader emoji heading (c # cs) =
     (case matchHeaderAt emoji heading (c # cs) of
        Some r \<Rightarrow> Some r
      | None \<Rightarrow> searchHeader emoji heading cs)"

fun lazyUntil :: "jsstring list \<Rightarrow> jsstring \<Rightarrow> jsstring" where
  "lazyUntil stops [] = []"
| "lazyUntil stops (c # cs) =
     (if list_ex (\<lambda>m. prefix m (c # cs)) stops then [] else c # lazyUntil stops cs)"

definition sectionMatch ::
  "jsstring \<Rightarrow> jsstring \<Rightarrow> jsstring list \<Rightarrow> jsstring \<Rightarrow> jsstring option" where
  "sectionMatch emoji heading stops s =
     map_option (lazyUntil stops) (searchHeader emoji heading s)"

definition sentimentMatch :: "jsstring \<Rightarrow> jsstring option" where
  "sentimentMatch s = sectionMatch chart (ascii ''SENTIMENT BREAKDOWN'')
     [check_mark, warning, fire, target, bulb] s"

definition positiveMatch :: "jsstring \<Rightarrow> jsstring option" where
  "positiveMatch s = sectionMatch check_mark (ascii ''POSITIVE HIGHLIGHTS'')
     [warning, fire, target, bulb, chart] s"

definition concernsMatch :: "jsstring \<Rightarrow> jsstring option" where
  "concernsMatch s = sectionMatch warning (ascii ''CRITICAL CONCERNS'')
     [fire, target, bulb, chart, check_mark] s"

definition trendingMatch :: "jsstring \<Rightarrow> jsstring option" where
  "trendingMatch s = sectionMatch fire (ascii ''TRENDING TOPICS'')
     [target, bulb, chart, check_mark, warning] s"

definition competitiveMatch :: "jsstring \<Rightarrow> jsstring option" where
  "competitiveMatch s = sectionMatch target (ascii ''COMPETITIVE INSIGHTS'')
     [chart, check_mark, warning, fire] s"

text \<open>
  The result object. \<^verbatim>\<open>dataSource\<close> is absent (\<open>None\<close>) until the orchestrator
  sets it.
\<close>

record analysisResult =
  sentimentSummary :: jsstring
  positiveHighlights :: jsstring
  negativeConcerns :: jsstring
  trendingTopics :: jsstring
  competitiveInsights :: jsstring
  hasCriticalIssues :: bool
  fullReport :: jsstring
  timestamp :: jsstring
  dataSource :: "jsstring option"

text \<open>
  \<^verbatim>\<open>parseResponse\<close>, with \<open>now\<close> for \<^verbatim>\<open>new Date().toISOString()\<close>. The argument is
  always a string (the caller concatenates text blocks onto \<^verbatim>\<open>''\<close>), and on a
  string no step of the body throws, so the \<^verbatim>\<open>catch\<close> of the source is never
  entered.
\<close>

definition parseResponse :: "jsstring \<Rightarrow> jsstring \<Rightarrow> analysisResult" where
  "parseResponse now responseText =
     (let sections =
            \<lparr> sentimentSummary = [], positiveHighlights = [], negativeConcerns = [],
              trendingTopics = [], competitiveInsights = [], hasCriticalIssues = False,
              fullReport = responseText, timestamp = now,
              analysisResult.dataSource = None \<rparr>;
          sections =
            (case sentimentMatch responseText of
               Some c \<Rightarrow> sections\<lparr>sentimentSummary := trim c\<rparr>
             | None \<Rightarrow> sections);
          sections =
            (case positiveMatch responseText of
               Some c \<Rightarrow> sections\<lparr>positiveHighlights := trim c\<rparr>
             | None \<Rightarrow> sections);
          sections =
            (case concernsMatch responseText of
               Some c \<Rightarrow>
                 (let sections = sections\<lparr>negativeConcerns := trim c\<rparr>;
                      concernsLower = toLowerCase (negativeConcerns sections)
                  in sections\<lparr>hasCriticalIssues :=
                       length (negativeConcerns sections) > 0 \<and>
                       \<not> js_includes concernsLower (ascii ''no critical concerns'') \<and>
                       \<not> js_includes concernsLower (ascii ''no significant concerns'') \<and>
                       \<not> js_includes concernsLower (ascii ''no critical issues'')\<rparr>)
             | None \<Rightarrow> sections);
          sections =
            (case trendingMatch responseText of
               Some c \<Rightarrow> sections\<lparr>trendingTopics := trim c\<rparr>
             | None \<Rightarrow> sections);
          sections =
            (case competitiveMatch responseText of
               Some c \<Rightarrow> sections\<lparr>competitiveInsights := trim c\<rparr>
             | None \<Rightarrow> sections);
          hasContent =
            (sentimentSummary sections \<noteq> [] \<or> positiveHighlights sections \<noteq> [] \<or>
             negativeConcerns sections \<noteq> [] \<or> trendingTopics sections \<noteq> [] \<or>
             competitiveInsights sections \<noteq> [])
      in if \<not> hasContent
         then sections\<lparr>sentimentSummary :=
                         ascii ''Unable to extract sentiment data from response.'',
                       negativeConcerns := ascii ''Manual review of full report required.''\<rparr>
         else sections)"

text \<open>
  Words for the statements about the parser: the trimmed capture of a section (empty
  when the section did not match), the test the parser applies to the trimmed concerns
  text, and the result of a reply from which no section text was extracted.
\<close>

definition captured :: "jsstring option \<Rightarrow> jsstring" where
  "captured m = (case m of Some c \<Rightarrow> trim c | None \<Rightarrow> [])"

definition critical :: "jsstring \<Rightarrow> bool" where
  "critical t =
     (t \<noteq> [] \<and>
      \<not> js_includes (toLowerCase t) (ascii ''no critical concerns'') \<and>
      \<not> js_includes (toLowerCase t) (ascii ''no significant concerns'') \<and>
      \<not> js_includes (toLowerCase t) (ascii ''no critical issues''))"

definition failedParse :: "jsstring \<Rightarrow> jsstring \<Rightarrow> analysisResult" where
  "failedParse now s =
     \<lparr> sentimentSummary = ascii ''Unable to extract sentiment data from response.'',
       positiveHighlights = [],
       negativeConcerns = ascii ''Manual review of full report required.'',
       trendingTopics = [], competitiveInsights = [], hasCriticalIssues = False,
       fullReport = s, timestamp = now, analysisResult.dataSource = None \<rparr>"

section \<open>The orchestrator\<close>

text \<open>
  The reply of \<^verbatim>\<open>client.messages.create\<close> is an argument: the call throws, or it
  returns content blocks. One call is made in a run, on either path; the prompt it is
  sent does not enter the result and is not modelled. \<open>responseOf\<close> concatenates
  the text blocks.
\<close>

definition responseOf :: "contentBlock list \<Rightarrow> jsstring" where
  "responseOf content =
     concat (map (\<lambda>b. case b of TextBlock t \<Rightarrow> t | OtherBlock \<Rightarrow> []) content)"

definition analyzeWithRealData ::
  "jsstring \<Rightarrow> error + contentBlock list \<Rightarrow> jsstring \<Rightarrow> jsstring \<Rightarrow> corpus \<Rightarrow>
   error + analysisResult" where
  "analyzeWithRealData now reply brand timeRange aggregatedData =
     (case reply of
        Inl e \<Rightarrow> Inl e
      | Inr content \<Rightarrow>
          (let fullResponse = responseOf content;
               parsed = parseResponse now fullResponse
           in Inr (parsed\<lparr>fullReport :=
                 ascii ''# Social Listening Report (Real-Time Data)'' @ nl @ nl @
                 ascii ''**Data Source:** '' @
                   (if corpus.dataSource aggregatedData = ascii ''real-time''
                    then check_mark @ ascii '' Real-time API data''
                    else warning @ ascii '' Partial API data'') @ nl @
                 ascii ''**Sources:** '' @
                   showNat (totalSources (aggregateStats aggregatedData)) @
                   ascii '' mentions across '' @
                   join (ascii '', '') (platforms (aggregateStats aggregatedData)) @ nl @
                 ascii ''**Brand:** '' @ brand @ nl @
                 ascii ''**Time Range:** '' @ timeRange @ nl @
                 ascii ''**Generated:** '' @ now @ nl @ nl @
                 ascii ''---'' @ nl @ nl @
                 fullResponse\<rparr>)))"

definition analyzeWithClaudeKnowledge ::
  "jsstring \<Rightarrow> error + contentBlock list \<Rightarrow> jsstring \<Rightarrow> jsstring \<Rightarrow> error + analysisResult" where
  "analyzeWithClaudeKnowledge now reply brand timeRange =
     (case reply of
        Inl e \<Rightarrow> Inl e
      | Inr content \<Rightarrow>
          (let fullResponse = responseOf content;
               parsed = parseResponse now fullResponse
           in Inr (parsed\<lparr>fullReport :=
                 ascii ''# Social Listening Report (Training Data Fallback)'' @ nl @ nl @
                 ascii ''**Data Source:** '' @ warning @
                   ascii '' Using Claude training data (API data unavailable)'' @ nl @
                 ascii ''**Brand:** '' @ brand @ nl @
                 ascii ''**Time Range:** '' @ timeRange @ nl @
                 ascii ''**Generated:** '' @ now @ nl @ nl @
                 ascii ''---'' @ nl @ nl @
                 fullResponse\<rparr>)))"

text \<open>The object the outer \<^verbatim>\<open>catch\<close> of \<^verbatim>\<open>analyzeBrandSentiment\<close> returns.\<close>

definition errorResult :: "jsstring \<Rightarrow> error \<Rightarrow> analysisResult" where
  "errorResult now e =
     \<lparr> sentimentSummary =
         ascii ''Error: Unable to complete social listening analysis. Please check API credentials and try again.'',
       positiveHighlights = [],
       negativeConcerns = ascii ''Analysis error occurred.'',
       trendingTopics = [],
       competitiveInsights = [],
       hasCriticalIssues = True,
       fullReport =
         ascii ''# Social Listening Analysis Error'' @ nl @ nl @
         ascii ''**Error:** '' @ message e @ nl @ nl @
         ascii ''**Time:** '' @ now,
       timestamp = now,
       analysisResult.dataSource = Some (ascii ''error'') \<rparr>"

text \<open>
  The inner \<^verbatim>\<open>try\<close> of \<^verbatim>\<open>analyzeBrandSentiment\<close>, with the two variables it
  sets, \<^verbatim>\<open>useRealData\<close> and \<^verbatim>\<open>aggregatedData\<close>, as its result.
  \<open>fetchedReddit\<close> and \<open>fetchedBing\<close> are what the two adapter calls under
  \<^verbatim>\<open>Promise.all\<close> give, a value or an exception. An exception leaves
  \<^verbatim>\<open>useRealData\<close> false and \<^verbatim>\<open>aggregatedData\<close> null.
\<close>

definition fetchAndAggregate ::
  "error + redditData \<Rightarrow> error + bingData \<Rightarrow> jsstring \<Rightarrow> jsstring \<Rightarrow> bool \<times> corpus option" where
  "fetchAndAggregate fetchedReddit fetchedBing brand timeRange =
     (case try_catch
             (case fetchedReddit of
                Inl e \<Rightarrow> Inl e
              | Inr redditFound \<Rightarrow>
                  (case fetchedBing of
                     Inl e \<Rightarrow> Inl e
                   | Inr bingFound \<Rightarrow>
                       (let aggregatedData = aggregateResults redditFound bingFound brand timeRange
                        in Inr (totalSources (aggregateStats aggregatedData) > 0,
                                Some aggregatedData))))
             (\<lambda>apiError. Inr (False, None))
      of Inr state \<Rightarrow> state | Inl e \<Rightarrow> (False, None))"

text \<open>
  \<^verbatim>\<open>analyzeBrandSentiment\<close>. \<open>now\<close> stands for every reading of the clock in the
  run. The competitors and the platform filter go into the prompt only.
\<close>

definition analyzeBrandSentiment ::
  "jsstring \<Rightarrow> error + redditData \<Rightarrow> error + bingData \<Rightarrow> error + contentBlock list \<Rightarrow>
   jsstring \<Rightarrow> jsstring \<Rightarrow> error + analysisResult" where
  "analyzeBrandSentiment now fetchedReddit fetchedBing reply brand timeRange =
     try_catch
       (let state = fetchAndAggregate fetchedReddit fetchedBing brand timeRange;
            useRealData = fst state;
            aggregatedData = snd state
        in case (case aggregatedData of
                   Some found \<Rightarrow>
                     (if useRealData
                      then analyzeWithRealData now reply brand timeRange found
                      else analyzeWithClaudeKnowledge now reply brand timeRange)
                 | None \<Rightarrow> analyzeWithClaudeKnowledge now reply brand timeRange)
           of Inl e \<Rightarrow> Inl e
            | Inr analysisResult \<Rightarrow>
                Inr (analysisResult\<lparr>analysisResult.dataSource :=
                       Some (case aggregatedData of
                               Some found \<Rightarrow> corpus.dataSource found
                             | None \<Rightarrow> ascii ''fallback'')\<rparr>))
       (\<lambda>e. Inr (errorResult now e))"

text \<open>
  The constructor of \<^verbatim>\<open>SocialListeningService\<close> and the exported
  \<^verbatim>\<open>analyzeSocialListening\<close>: both throw without \<^verbatim>\<open>ANTHROPIC_API_KEY\<close>, outside
  every \<^verbatim>\<open>try\<close>. The adapters are called with the brand, and with the time range
  and the platform filter.
\<close>

definition SocialListeningService_new :: "jsstring option \<Rightarrow> error + jsstring" where
  "SocialListeningService_new apiKey =
     (if falsy apiKey then Inl (Error (ascii ''ANTHROPIC_API_KEY is required''))
      else Inr (orEmpty apiKey))"

definition analyzeSocialListening ::
  "runtime \<Rightarrow> env \<Rightarrow> jsstring \<Rightarrow> error + redditClient \<Rightarrow> (int \<Rightarrow> jsstring) \<Rightarrow> webApi \<Rightarrow>
   error + contentBlock list \<Rightarrow> jsstring \<Rightarrow> jsstring \<Rightarrow> jsstring \<Rightarrow> error + analysisResult" where
  "analyzeSocialListening rt ev now snoowrap toISOString api reply brand timeRange wanted =
     (let apiKey = ANTHROPIC_API_KEY ev
      in if falsy apiKey
         then Inl (Error (ascii ''ANTHROPIC_API_KEY environment variable is not set''))
         else (case SocialListeningService_new apiKey of
                 Inl e \<Rightarrow> Inl e
               | Inr service \<Rightarrow>
                   analyzeBrandSentiment now
                     (searchReddit rt ev snoowrap toISOString brand timeRange)
                     (searchSerper rt ev api brand wanted)
                     reply brand timeRange))"

text \<open>All web records of a corpus, bucket after bucket in the order of the pass.\<close>

definition webRecords :: "corpus \<Rightarrow> searchResult list" where
  "webRecords d = results (corpus.linkedin d) @ results (corpus.twitter d) @
                  results (corpus.reviews d) @ results (corpus.blogs d)"

section \<open>Sample data for the concrete statements\<close>

definition neutral :: sentimentInfo where
  \<comment> \<open>the sentiment object of an empty post list\<close>
  "neutral = \<lparr> avgScore = 0, totalEngagement = 0, sentimentInfo.sentiment = ascii ''neutral'' \<rparr>"

definition sample_post :: "jsstring \<Rightarrow> int \<Rightarrow> int \<Rightarrow> post" where
  \<comment> \<open>a post with the given URL (also its permalink), score and comment count\<close>
  "sample_post u s c =
     \<lparr> post_id = ascii ''t3'', post.title = ascii ''Acme review'', body = [],
       subreddit = ascii ''SaaS'', upvotes = s, downvotes = 0, post.score = s,
       numComments = c, post.permalink = u, created = [], post.author = ascii ''ann'',
       post.url = u \<rparr>"

definition sample_hit :: "jsstring \<Rightarrow> searchResult" where
  \<comment> \<open>a web search hit with the given URL\<close>
  "sample_hit u =
     \<lparr> name = ascii ''Acme'', searchResult.url = u, searchResult.snippet = [],
       datePublished = None,
       displayUrl = [] \<rparr>"

definition forum_of :: "post list \<Rightarrow> redditData" where
  "forum_of ps = \<lparr> redditData.posts = ps, redditData.formattedText = [],
                   redditData.sentiment = neutral \<rparr>"

definition web_of ::
  "searchResult list \<Rightarrow> searchResult list \<Rightarrow> searchResult list \<Rightarrow> searchResult list \<Rightarrow>
   bingData" where
  "web_of li tw rv bl =
     \<lparr> bingData.linkedin = li, bingData.twitter = tw, bingData.reviews = rv,
       bingData.blogs = bl, bingData.formattedText = [],
       bingData.totalResults = length li + length tw + length rv + length bl \<rparr>"


text \<open>
  A reply with a concerns section of the given text, followed by a trending section; the
  two concerns texts of the specification's examples; a reply without any header.
\<close>

definition concerns_reply :: "jsstring \<Rightarrow> jsstring" where
  "concerns_reply concerns_text =
     warning @ ascii '' **CRITICAL CONCERNS**'' @ nl @ concerns_text @ nl @ nl @
     fire @ ascii '' **TRENDING TOPICS**'' @ nl @ bullet @
     ascii '' Pricing (3 mentions, source: reddit)''"

definition no_concerns_text :: jsstring where
  "no_concerns_text = bullet @ ascii '' No critical concerns identified (source: review)''"

definition pricing_text :: jsstring where
  "pricing_text = bullet @ ascii '' CRITICAL: pricing backlash (source: g2.com)''"

definition plain_reply :: jsstring where
  "plain_reply = ascii ''I am unable to produce this report.''"


text \<open>
  A runtime for the concrete statements, which hold ASCII text and integers only;
  environments with every variable set and with none; a clock; a submission about Acme;
  Reddit clients whose every search fails, and whose search of r/SaaS fails while
  r/technology returns the submission; web clients whose every request fails, and whose
  first LinkedIn query for Acme returns one entry while every other request fails.
\<close>

definition sample_runtime :: runtime where
  \<comment> \<open>a runtime that does what JavaScript does on ASCII text and on integers below \<open>10^21\<close>\<close>
  "sample_runtime =
     \<lparr> lowerCase = toLowerCase, numberToString = (\<lambda>x. showInt \<lfloor>x\<rfloor>) \<rparr>"

definition full_env :: env where
  "full_env =
     \<lparr> REDDIT_CLIENT_ID = Some (ascii ''id''), REDDIT_CLIENT_SECRET = Some (ascii ''secret''),
       REDDIT_USER_AGENT = Some (ascii ''bot''), SERPER_API_KEY = Some (ascii ''key''),
       ANTHROPIC_API_KEY = Some (ascii ''key'') \<rparr>"

definition empty_env :: env where
  "empty_env =
     \<lparr> REDDIT_CLIENT_ID = None, REDDIT_CLIENT_SECRET = None, REDDIT_USER_AGENT = None,
       SERPER_API_KEY = None, ANTHROPIC_API_KEY = None \<rparr>"

definition fixed_clock :: "int \<Rightarrow> jsstring" where
  "fixed_clock ms = ascii ''2025-01-01T00:00:00.000Z''"


definition failing_client :: redditClient where
  "failing_client sub query timeFilter = Inl (Error (ascii ''ECONNRESET''))"




definition failing_web :: webApi where
  "failing_web =
     \<lparr> axios = (\<lambda>q n. Inl (Error (ascii ''ETIMEDOUT''))),
       hostname = (\<lambda>u. Inr (ascii ''linkedin.com'')) \<rparr>"









section \<open>Properties\<close>

lemmas sample_defs = neutral_def sample_post_def sample_hit_def forum_of_def web_of_def
subsection \<open>The data-source status\<close>

lemma status_distinct:
  "ascii ''real-time'' \<noteq> ascii ''partial''" "ascii ''real-time'' \<noteq> ascii ''fallback''"
  "ascii ''partial'' \<noteq> ascii ''fallback''"
  by (simp_all add: ascii_def)

text \<open>
  C2. The status is \<^verbatim>\<open>real-time\<close> exactly when the forum count and the web adapter's
  total are both positive, \<^verbatim>\<open>partial\<close> exactly when one of them is and the other is
  not, and \<^verbatim>\<open>fallback\<close> exactly when both are zero. A forum bucket of 3 posts with a
  web total of 0 is \<^verbatim>\<open>partial\<close>, also when the corpus is built from three posts and
  no web result.
\<close>

theorem determineDataSource_status:
  "(determineDataSource rd bing = ascii ''real-time'') =
     (totalMentions rd > 0 \<and> bingData.totalResults bing > 0) \<and>
   (determineDataSource rd bing = ascii ''partial'') =
     ((totalMentions rd > 0) \<noteq> (bingData.totalResults bing > 0)) \<and>
   (determineDataSource rd bing = ascii ''fallback'') =
     (totalMentions rd = 0 \<and> bingData.totalResults bing = 0) \<and>
   determineDataSource (rd\<lparr>totalMentions := 3\<rparr>) (bing\<lparr>bingData.totalResults := 0\<rparr>) =
     ascii ''partial'' \<and>
   corpus.dataSource (DataAggregator_aggregateResults
       (forum_of [sample_post (ascii ''a'') 1 0, sample_post (ascii ''b'') 2 0,
                  sample_post (ascii ''c'') 3 0])
       (web_of [] [] [] []) brand timeRange) = ascii ''partial''"
  using status_distinct
  by (auto simp add: determineDataSource_def Let_def DataAggregator_aggregateResults_def
        sample_defs)

subsection \<open>The deduplication pass\<close>

lemma filterSeen_snd: "snd (filterSeen seen rs) = seen \<union> searchResult.url ` set rs"
  by (induction rs arbitrary: seen) auto

lemma filterSeen_urls:
  "searchResult.url ` set (fst (filterSeen seen rs)) = searchResult.url ` set rs - seen"
  by (induction rs arbitrary: seen) auto

lemma filterSeen_distinct: "distinct (map searchResult.url (fst (filterSeen seen rs)))"
  by (induction rs arbitrary: seen) (auto simp: filterSeen_urls)

lemma filterSeen_subseq: "subseq (fst (filterSeen seen rs)) rs"
  by (induction rs arbitrary: seen) auto

text \<open>A list of distinct URLs, none of them seen, passes the filter whole.\<close>

lemma filterSeen_fixed:
  "distinct (map searchResult.url rs) \<Longrightarrow> searchResult.url ` set rs \<inter> seen = {} \<Longrightarrow>
   fst (filterSeen seen rs) = rs"
  by (induction rs arbitrary: seen) auto

lemma filterSeen_twice:
  "seen' \<subseteq> seen \<Longrightarrow>
   fst (filterSeen seen' (fst (filterSeen seen rs))) = fst (filterSeen seen rs)"
  by (rule filterSeen_fixed) (auto simp: filterSeen_distinct filterSeen_urls)

lemma dedupBucket_fst:
  "fst (dedupBucket seen b) =
     b\<lparr>results := fst (filterSeen seen (results b)),
       webBucket.totalResults := length (fst (filterSeen seen (results b)))\<rparr>"
  by (simp add: dedupBucket_def Let_def)

lemma dedupBucket_snd:
  "snd (dedupBucket seen b) = seen \<union> searchResult.url ` set (results b)"
  by (simp add: dedupBucket_def Let_def filterSeen_snd)

lemma dedupBucket_twice:
  "seen' \<subseteq> seen \<Longrightarrow>
   fst (dedupBucket seen' (fst (dedupBucket seen b))) = fst (dedupBucket seen b)"
  by (simp add: dedupBucket_fst filterSeen_twice)

lemma dedupBucket_twice_snd:
  "seen' \<subseteq> seen \<Longrightarrow>
   snd (dedupBucket seen' (fst (dedupBucket seen b))) \<subseteq> snd (dedupBucket seen b)"
  by (auto simp add: dedupBucket_fst dedupBucket_snd filterSeen_urls)

text \<open>What each bucket holds after the pass, with the set of URLs seen before it.\<close>

lemma dedup_results:
  "results (corpus.linkedin (deduplicateEntries d)) =
     fst (filterSeen {} (results (corpus.linkedin d)))"
  "results (corpus.twitter (deduplicateEntries d)) =
     fst (filterSeen (searchResult.url ` set (results (corpus.linkedin d)))
           (results (corpus.twitter d)))"
  "results (corpus.reviews (deduplicateEntries d)) =
     fst (filterSeen (searchResult.url ` set (results (corpus.linkedin d)) \<union>
                      searchResult.url ` set (results (corpus.twitter d)))
           (results (corpus.reviews d)))"
  "results (corpus.blogs (deduplicateEntries d)) =
     fst (filterSeen (searchResult.url ` set (results (corpus.linkedin d)) \<union>
                      searchResult.url ` set (results (corpus.twitter d)) \<union>
                      searchResult.url ` set (results (corpus.reviews d)))
           (results (corpus.blogs d)))"
  by (simp_all add: deduplicateEntries_def Let_def dedupBucket_fst dedupBucket_snd)

lemma dedup_reddit: "corpus.reddit (deduplicateEntries d) = corpus.reddit d"
  by (simp add: deduplicateEntries_def Let_def)

lemma dedup_counts:
  "webBucket.totalResults (corpus.linkedin (deduplicateEntries d)) =
     length (results (corpus.linkedin (deduplicateEntries d)))"
  "webBucket.totalResults (corpus.twitter (deduplicateEntries d)) =
     length (results (corpus.twitter (deduplicateEntries d)))"
  "webBucket.totalResults (corpus.reviews (deduplicateEntries d)) =
     length (results (corpus.reviews (deduplicateEntries d)))"
  "webBucket.totalResults (corpus.blogs (deduplicateEntries d)) =
     length (results (corpus.blogs (deduplicateEntries d)))"
  by (simp_all add: deduplicateEntries_def Let_def dedupBucket_fst)

lemma dedup_total:
  "totalSources (aggregateStats (deduplicateEntries d)) =
     totalMentions (corpus.reddit (deduplicateEntries d)) +
     webBucket.totalResults (corpus.linkedin (deduplicateEntries d)) +
     webBucket.totalResults (corpus.twitter (deduplicateEntries d)) +
     webBucket.totalResults (corpus.reviews (deduplicateEntries d)) +
     webBucket.totalResults (corpus.blogs (deduplicateEntries d))"
  by (simp add: deduplicateEntries_def Let_def)

text \<open>
  C1, as the claim states it, fails: the forum bucket takes no part in the pass. A corpus
  with one forum post and one LinkedIn hit of the same URL keeps the LinkedIn hit, while
  the post of that URL is still in the forum bucket.
\<close>

theorem dedup_forum_url_kept_in_web:
  "sample_hit (ascii ''https://acme.io/a'') \<in>
     set (results (corpus.linkedin (deduplicateEntries
       (DataAggregator_aggregateResults
          (forum_of [sample_post (ascii ''https://acme.io/a'') 5 1])
          (web_of [sample_hit (ascii ''https://acme.io/a'')] [] [] [])
          (ascii ''Acme'') (ascii ''7 days''))))) \<and>
   searchResult.url (sample_hit (ascii ''https://acme.io/a'')) \<in>
     post.url ` set (redditBucket.posts (corpus.reddit (deduplicateEntries
       (DataAggregator_aggregateResults
          (forum_of [sample_post (ascii ''https://acme.io/a'') 5 1])
          (web_of [sample_hit (ascii ''https://acme.io/a'')] [] [] [])
          (ascii ''Acme'') (ascii ''7 days'')))))"
  by (simp add: deduplicateEntries_def DataAggregator_aggregateResults_def dedupBucket_def
        Let_def sample_defs)

text \<open>
  C1, amended. The pass runs over the four web buckets in the order LinkedIn, Twitter,
  reviews, blogs with one running set of seen URLs, and leaves the forum bucket alone:
  the forum bucket is unchanged, and what the pass leaves in the web buckets does not
  depend on it. Afterwards no URL occurs twice among the web records; each bucket is a
  subsequence of what it was; the LinkedIn bucket keeps every URL it had, and each later
  bucket keeps exactly the URLs it had that no earlier web bucket had.
\<close>

theorem dedup_web_buckets_in_order:
  "corpus.reddit (deduplicateEntries d) = corpus.reddit d \<and>
   webRecords (deduplicateEntries (d\<lparr>corpus.reddit := rb\<rparr>)) = webRecords (deduplicateEntries d) \<and>
   distinct (map searchResult.url (webRecords (deduplicateEntries d))) \<and>
   subseq (results (corpus.linkedin (deduplicateEntries d))) (results (corpus.linkedin d)) \<and>
   subseq (results (corpus.twitter (deduplicateEntries d))) (results (corpus.twitter d)) \<and>
   subseq (results (corpus.reviews (deduplicateEntries d))) (results (corpus.reviews d)) \<and>
   subseq (results (corpus.blogs (deduplicateEntries d))) (results (corpus.blogs d)) \<and>
   searchResult.url ` set (results (corpus.linkedin (deduplicateEntries d))) =
     searchResult.url ` set (results (corpus.linkedin d)) \<and>
   searchResult.url ` set (results (corpus.twitter (deduplicateEntries d))) =
     searchResult.url ` set (results (corpus.twitter d)) -
     searchResult.url ` set (results (corpus.linkedin d)) \<and>
   searchResult.url ` set (results (corpus.reviews (deduplicateEntries d))) =
     searchResult.url ` set (results (corpus.reviews d)) -
     (searchResult.url ` set (results (corpus.linkedin d)) \<union>
      searchResult.url ` set (results (corpus.twitter d))) \<and>
   searchResult.url ` set (results (corpus.blogs (deduplicateEntries d))) =
     searchResult.url ` set (results (corpus.blogs d)) -
     (searchResult.url ` set (results (corpus.linkedin d)) \<union>
      searchResult.url ` set (results (corpus.twitter d)) \<union>
      searchResult.url ` set (results (corpus.reviews d)))"
proof (intro conjI)
  show "distinct (map searchResult.url (webRecords (deduplicateEntries d)))"
    by (auto simp add: webRecords_def dedup_results filterSeen_distinct filterSeen_urls)
qed (simp_all add: webRecords_def dedup_results filterSeen_urls filterSeen_subseq dedup_reddit)

text \<open>
  C6. After the pass the recorded total is the sum of the five count fields of the
  corpus it returns, and each web count is the length of its bucket. For a corpus the
  exported \<^verbatim>\<open>aggregateResults\<close> returns, the forum count is the number of posts too,
  so the total is the number of records in the five buckets.
\<close>

theorem dedup_totalSources_is_sum:
  "totalSources (aggregateStats (deduplicateEntries d)) =
     totalMentions (corpus.reddit (deduplicateEntries d)) +
     webBucket.totalResults (corpus.linkedin (deduplicateEntries d)) +
     webBucket.totalResults (corpus.twitter (deduplicateEntries d)) +
     webBucket.totalResults (corpus.reviews (deduplicateEntries d)) +
     webBucket.totalResults (corpus.blogs (deduplicateEntries d)) \<and>
   webBucket.totalResults (corpus.linkedin (deduplicateEntries d)) =
     length (results (corpus.linkedin (deduplicateEntries d))) \<and>
   webBucket.totalResults (corpus.twitter (deduplicateEntries d)) =
     length (results (corpus.twitter (deduplicateEntries d))) \<and>
   webBucket.totalResults (corpus.reviews (deduplicateEntries d)) =
     length (results (corpus.reviews (deduplicateEntries d))) \<and>
   webBucket.totalResults (corpus.blogs (deduplicateEntries d)) =
     length (results (corpus.blogs (deduplicateEntries d))) \<and>
   totalSources (aggregateStats (aggregateResults rdata bing brand timeRange)) =
     length (redditBucket.posts (corpus.reddit (aggregateResults rdata bing brand timeRange))) +
     length (webRecords (aggregateResults rdata bing brand timeRange))"
  by (simp add: dedup_total dedup_counts aggregateResults_def webRecords_def dedup_reddit
        DataAggregator_aggregateResults_def Let_def)

text \<open>
  C7. Running the pass on its own result changes nothing: the corpus, and so its
  \<^verbatim>\<open>totalSources\<close> and every bucket, is the same after two passes as after one.
\<close>

theorem dedup_idempotent:
  "deduplicateEntries (deduplicateEntries d) = deduplicateEntries d"
proof -
  define l where "l = dedupBucket {} (corpus.linkedin d)"
  define t where "t = dedupBucket (snd l) (corpus.twitter d)"
  define r where "r = dedupBucket (snd t) (corpus.reviews d)"
  define b where "b = dedupBucket (snd r) (corpus.blogs d)"
  define l' where "l' = dedupBucket {} (fst l)"
  define t' where "t' = dedupBucket (snd l') (fst t)"
  define r' where "r' = dedupBucket (snd t') (fst r)"
  define b' where "b' = dedupBucket (snd r') (fst b)"
  have sl: "snd l' \<subseteq> snd l"
    unfolding l'_def l_def by (rule dedupBucket_twice_snd) simp
  have st: "snd t' \<subseteq> snd t"
    unfolding t'_def t_def by (rule dedupBucket_twice_snd) (rule sl)
  have sr: "snd r' \<subseteq> snd r"
    unfolding r'_def r_def by (rule dedupBucket_twice_snd) (rule st)
  have fl: "fst l' = fst l"
    unfolding l'_def l_def by (rule dedupBucket_twice) simp
  have ft: "fst t' = fst t"
    unfolding t'_def t_def by (rule dedupBucket_twice) (rule sl)
  have fr: "fst r' = fst r"
    unfolding r'_def r_def by (rule dedupBucket_twice) (rule st)
  have fb: "fst b' = fst b"
    unfolding b'_def b_def by (rule dedupBucket_twice) (rule sr)
  show ?thesis
    using fl ft fr fb
    unfolding l'_def t'_def r'_def b'_def l_def t_def r_def b_def
    by (simp add: deduplicateEntries_def Let_def)
qed

text \<open>
  C10. The pass leaves the forum bucket, the per-platform breakdown, the platform list,
  the other statistics, the status and the rendered text as they were. So the statistics
  can disagree with the buckets afterwards: when LinkedIn and Twitter return the same
  single URL, the exported \<^verbatim>\<open>aggregateResults\<close> reports a total of 1 while the
  breakdown counts 1 for LinkedIn and 1 for Twitter, and Twitter/X stays in the platform
  list although its bucket is empty.
\<close>

theorem dedup_frame:
  "corpus.reddit (deduplicateEntries d) = corpus.reddit d \<and>
   platformBreakdown (aggregateStats (deduplicateEntries d)) =
     platformBreakdown (aggregateStats d) \<and>
   platforms (aggregateStats (deduplicateEntries d)) = platforms (aggregateStats d) \<and>
   dateRange (aggregateStats (deduplicateEntries d)) = dateRange (aggregateStats d) \<and>
   redditSentiment (aggregateStats (deduplicateEntries d)) =
     redditSentiment (aggregateStats d) \<and>
   redditAvgScore (aggregateStats (deduplicateEntries d)) =
     redditAvgScore (aggregateStats d) \<and>
   corpus.dataSource (deduplicateEntries d) = corpus.dataSource d \<and>
   formattedForClaude (deduplicateEntries d) = formattedForClaude d \<and>
   totalSources (aggregateStats (aggregateResults (forum_of [])
       (web_of [sample_hit (ascii ''u'')] [sample_hit (ascii ''u'')] [] [])
       brand timeRange)) = 1 \<and>
   platformBreakdown (aggregateStats (aggregateResults (forum_of [])
       (web_of [sample_hit (ascii ''u'')] [sample_hit (ascii ''u'')] [] [])
       brand timeRange)) =
     \<lparr> breakdown.reddit = 0, breakdown.linkedin = 1, breakdown.twitter = 1,
       breakdown.reviews = 0, breakdown.blogs = 0 \<rparr> \<and>
   platforms (aggregateStats (aggregateResults (forum_of [])
       (web_of [sample_hit (ascii ''u'')] [sample_hit (ascii ''u'')] [] [])
       brand timeRange)) = [ascii ''LinkedIn'', ascii ''Twitter/X''] \<and>
   totalSources (aggregateStats (aggregateResults (forum_of [])
       (web_of [sample_hit (ascii ''u'')] [sample_hit (ascii ''u'')] [] [])
       brand timeRange)) <
     breakdown.linkedin (platformBreakdown (aggregateStats (aggregateResults (forum_of [])
       (web_of [sample_hit (ascii ''u'')] [sample_hit (ascii ''u'')] [] [])
       brand timeRange))) +
     breakdown.twitter (platformBreakdown (aggregateStats (aggregateResults (forum_of [])
       (web_of [sample_hit (ascii ''u'')] [sample_hit (ascii ''u'')] [] [])
       brand timeRange))) \<and>
   corpus.twitter (aggregateResults (forum_of [])
       (web_of [sample_hit (ascii ''u'')] [sample_hit (ascii ''u'')] [] [])
       brand timeRange) = \<lparr> results = [], webBucket.totalResults = 0 \<rparr>"
  by (simp add: deduplicateEntries_def Let_def aggregateResults_def dedupBucket_def
        DataAggregator_aggregateResults_def calculateMetrics_def sample_defs)

subsection \<open>Doubles that hold integers\<close>

lemma roundHalfEven_int: "roundHalfEven (rat_of_int z) = z"
  by (simp add: roundHalfEven_def)

lemma bitlen_bound:
  assumes "\<bar>n\<bar> < 2 ^ N"
  shows "bitlen \<bar>n\<bar> \<le> int N"
proof (cases "n = 0")
  case True
  then show ?thesis by simp
next
  case False
  then have pos: "0 < \<bar>n\<bar>" by simp
  from bitlen_bounds [OF pos] have "2 ^ nat (bitlen \<bar>n\<bar> - 1) \<le> \<bar>n\<bar>" by simp
  with assms have "(2::int) ^ nat (bitlen \<bar>n\<bar> - 1) < 2 ^ N" by linarith
  then have "nat (bitlen \<bar>n\<bar> - 1) < N" by (simp only: power_strict_increasing_iff)
  then show ?thesis by linarith
qed

lemma binaryExponent_int:
  assumes "\<bar>n\<bar> < 2 ^ N"
  shows "binaryExponent (rat_of_int n) \<le> int N - 1"
proof -
  have "\<bar>rat_of_int n\<bar> = rat_of_int \<bar>n\<bar>" by simp
  moreover have "quotient_of (rat_of_int \<bar>n\<bar>) = (\<bar>n\<bar>, 1)"
    by (simp add: Rat.of_int_def [symmetric] quotient_of_int)
  ultimately have q: "quotient_of \<bar>rat_of_int n\<bar> = (\<bar>n\<bar>, 1)"
    by (simp only:)
  have "bitlen 1 = 1" by (simp add: bitlen_alt_def)
  with bitlen_bound [OF assms] show ?thesis
    by (simp add: binaryExponent_def q Let_def)
qed

text \<open>An integer below \<open>2^53\<close> in size is a double: rounding leaves it as it is.\<close>

lemma fl_int:
  assumes "\<bar>n\<bar> < 2 ^ 53"
  shows "fl (rat_of_int n) = rat_of_int n"
proof (cases "n = 0")
  case True
  then show ?thesis by (simp add: fl_def)
next
  case False
  define k where "k = max (binaryExponent (rat_of_int n)) (- 1022) - 52"
  have k: "k \<le> 0" using binaryExponent_int [OF assms] by (simp add: k_def)
  define m where "m = nat (- k)"
  have u: "pow2 k = 1 / 2 ^ m"
    using k by (cases "k = 0") (simp_all add: pow2_def m_def)
  have "rat_of_int n / pow2 k = rat_of_int (n * 2 ^ m)" by (simp add: u)
  then have "roundHalfEven (rat_of_int n / pow2 k) = n * 2 ^ m"
    by (simp only: roundHalfEven_int)
  then show ?thesis
    using False by (simp add: fl_def k_def [symmetric] Let_def u)
qed

subsection \<open>The engagement sort\<close>

lemma mset_insertBy: "mset (insertBy cmp x ys) = add_mset x (mset ys)"
  by (induction ys) auto

lemma mset_js_sort: "mset (js_sort cmp xs) = mset xs"
  by (induction xs) (auto simp: js_sort_def mset_insertBy)

lemma set_insertBy: "set (insertBy cmp x ys) = insert x (set ys)"
  by (induction ys) auto

lemma set_js_sort: "set (js_sort cmp xs) = set xs"
  by (induction xs) (auto simp: js_sort_def set_insertBy)

text \<open>
  In the safe range the comparator is the difference of the integer engagements, the
  second minus the first.
\<close>

lemma compareEngagement_safe:
  assumes "safeCounts a" "safeCounts b"
  shows "compareEngagement a b = rat_of_int (engagement b - engagement a)"
proof -
  have two: "\<And>p. safeCounts p \<Longrightarrow>
      fl (rat_of_int (numComments p) * 2) = rat_of_int (numComments p * 2)"
  proof -
    fix p assume "safeCounts p"
    then have "\<bar>numComments p * 2\<bar> < 2 ^ 53"
      by (auto simp: safeCounts_def abs_le_iff abs_less_iff)
    from fl_int [OF this] show
      "fl (rat_of_int (numComments p) * 2) = rat_of_int (numComments p * 2)"
      by simp
  qed
  have eng: "\<And>p. safeCounts p \<Longrightarrow>
      fl (rat_of_int (post.score p) + fl (rat_of_int (numComments p) * 2)) =
      rat_of_int (engagement p)"
  proof -
    fix p assume s: "safeCounts p"
    then have "\<bar>post.score p + numComments p * 2\<bar> < 2 ^ 53"
      by (auto simp: safeCounts_def abs_le_iff abs_less_iff)
    from fl_int [OF this] show
      "fl (rat_of_int (post.score p) + fl (rat_of_int (numComments p) * 2)) =
       rat_of_int (engagement p)"
      by (simp add: two [OF s] engagement_def mult.commute)
  qed
  have "\<bar>engagement b - engagement a\<bar> < 2 ^ 53"
    using assms by (auto simp: safeCounts_def engagement_def abs_le_iff abs_less_iff)
  from fl_int [OF this] show ?thesis
    by (simp add: compareEngagement_def Let_def eng [OF assms(1)] eng [OF assms(2)])
qed

text \<open>Inserting with the comparator keeps a list of safe posts in descending order.\<close>

lemma sorted_insertBy:
  "safeCounts x \<Longrightarrow> \<forall>y \<in> set ys. safeCounts y \<Longrightarrow>
   sorted_wrt (\<lambda>a b. engagement b \<le> engagement a) ys \<Longrightarrow>
   sorted_wrt (\<lambda>a b. engagement b \<le> engagement a) (insertBy compareEngagement x ys)"
  by (induction ys) (auto simp: set_insertBy compareEngagement_safe)

lemma sorted_sortByEngagement:
  "\<forall>p \<in> set ps. safeCounts p \<Longrightarrow>
   sorted_wrt (\<lambda>a b. engagement b \<le> engagement a) (sortByEngagement ps)"
proof (induction ps)
  case Nil
  then show ?case by (simp add: sortByEngagement_def js_sort_def)
next
  case (Cons p ps)
  then have "sorted_wrt (\<lambda>a b. engagement b \<le> engagement a) (js_sort compareEngagement ps)"
    by (simp add: sortByEngagement_def)
  moreover have "\<forall>y \<in> set (js_sort compareEngagement ps). safeCounts y"
    using Cons.prems by (simp add: set_js_sort)
  moreover have "safeCounts p" using Cons.prems by simp
  ultimately show ?case
    unfolding sortByEngagement_def js_sort_def foldr.simps o_apply
    by (intro sorted_insertBy) (simp_all add: js_sort_def)
qed

lemma sample_post_safe:
  "safeCounts (sample_post u 10 5)" "safeCounts (sample_post u 15 0)"
  by (simp_all add: safeCounts_def sample_post_def)

lemma sample_sort:
  "sortByEngagement [sample_post (ascii ''B'') 15 0, sample_post (ascii ''A'') 10 5] =
     [sample_post (ascii ''A'') 10 5, sample_post (ascii ''B'') 15 0]"
  "sortByEngagement [sample_post (ascii ''A'') 10 5, sample_post (ascii ''B'') 15 0] =
     [sample_post (ascii ''A'') 10 5, sample_post (ascii ''B'') 15 0]"
   apply (simp_all add: sortByEngagement_def js_sort_def compareEngagement_safe
            sample_post_safe)
   apply (simp_all add: engagement_def sample_post_def)
  done

text \<open>
  Where the doubles stop holding every integer the order can fail. A post with score
  \<open>2^53 = 9007199254740992\<close> and no comment, followed by a post with score
  \<open>2^53 - 1\<close> and one comment, stays in front although the second has the higher
  engagement: \<open>2^53 + 1\<close> is no double, the sum rounds to \<open>2^53\<close>, and the comparator
  returns 0.
\<close>

lemma sortByEngagement_beyond_doubles:
  "engagement (sample_post (ascii ''a'') 9007199254740992 0) <
     engagement (sample_post (ascii ''b'') 9007199254740991 1) \<and>
   compareEngagement (sample_post (ascii ''a'') 9007199254740992 0)
     (sample_post (ascii ''b'') 9007199254740991 1) = 0 \<and>
   sortByEngagement
     [sample_post (ascii ''a'') 9007199254740992 0,
      sample_post (ascii ''b'') 9007199254740991 1] =
     [sample_post (ascii ''a'') 9007199254740992 0,
      sample_post (ascii ''b'') 9007199254740991 1]"
proof -
  have c: "compareEngagement (sample_post (ascii ''a'') 9007199254740992 0)
             (sample_post (ascii ''b'') 9007199254740991 1) = 0"
    by code_simp
  have e: "engagement (sample_post (ascii ''a'') 9007199254740992 0) <
             engagement (sample_post (ascii ''b'') 9007199254740991 1)"
    by (simp add: engagement_def sample_post_def)
  show ?thesis
    using e by (simp add: c sortByEngagement_def js_sort_def)
qed

text \<open>
  C9. The sorted list holds the same posts. When every score and comment count is an
  integer of size at most \<open>2^50\<close>, where the comparator's double arithmetic is exact,
  a post of higher engagement never stands after one of lower engagement: whenever the
  post at position \<open>i\<close> of the output has more engagement than the post at position
  \<open>j\<close>, then \<open>i < j\<close>. Post A with score 10 and 5 comments has engagement 20, post B
  with score 15 and no comment has engagement 15, and A is first in the output
  whichever way round the two are given.
\<close>

theorem sortByEngagement_descending:
  "mset (sortByEngagement ps) = mset ps \<and>
   ((\<forall>p \<in> set ps. safeCounts p) \<longrightarrow>
    (\<forall>i j. i < length (sortByEngagement ps) \<and> j < length (sortByEngagement ps) \<and>
       engagement (sortByEngagement ps ! j) < engagement (sortByEngagement ps ! i) \<longrightarrow> i < j)) \<and>
   engagement (sample_post (ascii ''A'') 10 5) = 20 \<and>
   engagement (sample_post (ascii ''B'') 15 0) = 15 \<and>
   sortByEngagement [sample_post (ascii ''B'') 15 0, sample_post (ascii ''A'') 10 5] =
     [sample_post (ascii ''A'') 10 5, sample_post (ascii ''B'') 15 0] \<and>
   sortByEngagement [sample_post (ascii ''A'') 10 5, sample_post (ascii ''B'') 15 0] =
     [sample_post (ascii ''A'') 10 5, sample_post (ascii ''B'') 15 0]"
proof (intro conjI allI impI)
  show "mset (sortByEngagement ps) = mset ps"
    by (simp add: sortByEngagement_def mset_js_sort)
next
  fix i j
  assume safe: "\<forall>p \<in> set ps. safeCounts p"
  assume h: "i < length (sortByEngagement ps) \<and> j < length (sortByEngagement ps) \<and>
      engagement (sortByEngagement ps ! j) < engagement (sortByEngagement ps ! i)"
  show "i < j"
  proof (rule ccontr)
    assume "\<not> i < j"
    with h have "j < i" by (cases "i = j") auto
    with h sorted_sortByEngagement [OF safe]
    have "engagement (sortByEngagement ps ! i) \<le> engagement (sortByEngagement ps ! j)"
      by (simp add: sorted_wrt_iff_nth_less)
    with h show False by simp
  qed
qed (simp_all add: sample_sort, simp_all add: engagement_def sample_post_def)

text \<open>
  The hypotheses of C9 hold for the list B, A: both posts are in the safe range, and in
  the output the positions 0 and 1 exist and the post at 0 has more engagement than the
  post at 1.
\<close>

theorem sortByEngagement_descending_witness:
  "list_all safeCounts [sample_post (ascii ''B'') 15 0, sample_post (ascii ''A'') 10 5] \<and>
   0 < length (sortByEngagement
         [sample_post (ascii ''B'') 15 0, sample_post (ascii ''A'') 10 5]) \<and>
   1 < length (sortByEngagement
         [sample_post (ascii ''B'') 15 0, sample_post (ascii ''A'') 10 5]) \<and>
   engagement (sortByEngagement
         [sample_post (ascii ''B'') 15 0, sample_post (ascii ''A'') 10 5] ! 1) <
   engagement (sortByEngagement
         [sample_post (ascii ''B'') 15 0, sample_post (ascii ''A'') 10 5] ! 0) \<and>
   (0::nat) < 1"
proof -
  let ?out = "sortByEngagement [sample_post (ascii ''B'') 15 0, sample_post (ascii ''A'') 10 5]"
  have s: "\<forall>p \<in> set [sample_post (ascii ''B'') 15 0, sample_post (ascii ''A'') 10 5].
             safeCounts p"
    by (simp add: sample_post_safe)
  have h: "0 < length ?out \<and> 1 < length ?out \<and> engagement (?out ! 1) < engagement (?out ! 0)"
    by (simp add: sample_sort) (simp add: engagement_def sample_post_def)
  from sortByEngagement_descending
         [of "[sample_post (ascii ''B'') 15 0, sample_post (ascii ''A'') 10 5]"] s
  have "\<forall>i j. i < length ?out \<and> j < length ?out \<and>
          engagement (?out ! j) < engagement (?out ! i) \<longrightarrow> i < j"
    by blast
  with h have "(0::nat) < 1" by blast
  with h s show ?thesis by (simp add: list_all_iff)
qed


subsection \<open>The response parser\<close>

lemmas emoji_defs = chart_def check_mark_def warning_def fire_def target_def bulb_def bullet_def

lemmas match_defs = sentimentMatch_def positiveMatch_def concernsMatch_def trendingMatch_def
  competitiveMatch_def

text \<open>A guarded field update, with the case moved into the new field value.\<close>

lemma step_simps:
  "(case m of Some c \<Rightarrow> r\<lparr>sentimentSummary := trim c\<rparr> | None \<Rightarrow> r) =
     r\<lparr>sentimentSummary := (case m of Some c \<Rightarrow> trim c | None \<Rightarrow> sentimentSummary r)\<rparr>"
  "(case m of Some c \<Rightarrow> r\<lparr>positiveHighlights := trim c\<rparr> | None \<Rightarrow> r) =
     r\<lparr>positiveHighlights :=
         (case m of Some c \<Rightarrow> trim c | None \<Rightarrow> positiveHighlights r)\<rparr>"
  "(case m of Some c \<Rightarrow> r\<lparr>trendingTopics := trim c\<rparr> | None \<Rightarrow> r) =
     r\<lparr>trendingTopics := (case m of Some c \<Rightarrow> trim c | None \<Rightarrow> trendingTopics r)\<rparr>"
  "(case m of Some c \<Rightarrow> r\<lparr>competitiveInsights := trim c\<rparr> | None \<Rightarrow> r) =
     r\<lparr>competitiveInsights :=
         (case m of Some c \<Rightarrow> trim c | None \<Rightarrow> competitiveInsights r)\<rparr>"
  by (cases m; simp)+

lemma concerns_step:
  "(case m of
      Some c \<Rightarrow>
        (let sections = r\<lparr>negativeConcerns := trim c\<rparr>;
             concernsLower = toLowerCase (negativeConcerns sections)
         in sections\<lparr>hasCriticalIssues :=
              length (negativeConcerns sections) > 0 \<and>
              \<not> js_includes concernsLower (ascii ''no critical concerns'') \<and>
              \<not> js_includes concernsLower (ascii ''no significant concerns'') \<and>
              \<not> js_includes concernsLower (ascii ''no critical issues'')\<rparr>)
    | None \<Rightarrow> r) =
   r\<lparr>negativeConcerns := (case m of Some c \<Rightarrow> trim c | None \<Rightarrow> negativeConcerns r),
     hasCriticalIssues :=
       (case m of Some c \<Rightarrow> critical (trim c) | None \<Rightarrow> hasCriticalIssues r)\<rparr>"
  by (cases m; simp add: critical_def Let_def)

text \<open>The parser's result, field by field.\<close>

lemma parseResponse_closed:
  "parseResponse now s =
     (let r = \<lparr> sentimentSummary = captured (sentimentMatch s),
                positiveHighlights = captured (positiveMatch s),
                negativeConcerns = captured (concernsMatch s),
                trendingTopics = captured (trendingMatch s),
                competitiveInsights = captured (competitiveMatch s),
                hasCriticalIssues =
                  (case concernsMatch s of Some c \<Rightarrow> critical (trim c) | None \<Rightarrow> False),
                fullReport = s, timestamp = now, analysisResult.dataSource = None \<rparr>
      in if captured (sentimentMatch s) = [] \<and> captured (positiveMatch s) = [] \<and>
            captured (concernsMatch s) = [] \<and> captured (trendingMatch s) = [] \<and>
            captured (competitiveMatch s) = []
         then r\<lparr>sentimentSummary := ascii ''Unable to extract sentiment data from response.'',
                negativeConcerns := ascii ''Manual review of full report required.''\<rparr>
         else r)"
  unfolding parseResponse_def
  apply (subst concerns_step)
  apply (simp only: step_simps)
  apply (simp add: Let_def captured_def cong: option.case_cong)
  done

lemma parse_critical:
  "hasCriticalIssues (parseResponse now s) =
     (case concernsMatch s of Some c \<Rightarrow> critical (trim c) | None \<Rightarrow> False)"
  by (simp add: parseResponse_closed Let_def)

lemma no_concerns_match:
  "concernsMatch (concerns_reply no_concerns_text) = Some (nl @ no_concerns_text @ nl @ nl)"
  by (simp add: concernsMatch_def sectionMatch_def matchHeaderAt_def concerns_reply_def
        no_concerns_text_def emoji_defs ascii_def nl_def isWhiteSpace_def Let_def)

lemma no_concerns_trim: "trim (nl @ no_concerns_text @ nl @ nl) = no_concerns_text"
  by (simp add: trim_def no_concerns_text_def emoji_defs ascii_def nl_def isWhiteSpace_def)

lemma no_concerns_not_critical: "\<not> critical no_concerns_text"
  by (simp add: critical_def no_concerns_text_def emoji_defs ascii_def toLowerCase_def)

lemma pricing_match:
  "concernsMatch (concerns_reply pricing_text) = Some (nl @ pricing_text @ nl @ nl)"
  by (simp add: concernsMatch_def sectionMatch_def matchHeaderAt_def concerns_reply_def
        pricing_text_def emoji_defs ascii_def nl_def isWhiteSpace_def Let_def)

lemma pricing_trim: "trim (nl @ pricing_text @ nl @ nl) = pricing_text"
  by (simp add: trim_def pricing_text_def emoji_defs ascii_def nl_def isWhiteSpace_def)

lemma pricing_critical: "critical pricing_text"
  by (simp add: critical_def pricing_text_def emoji_defs ascii_def toLowerCase_def)

text \<open>
  C4. When the concerns header matched, with capture \<open>c\<close>, \<^verbatim>\<open>hasCriticalIssues\<close> is
  true exactly when the trimmed capture is not empty and its lower-cased text contains
  none of the three phrases. In a reply whose concerns section is the bullet
  \<^verbatim>\<open>No critical concerns identified (source: review)\<close> the flag is false, and with
  the bullet \<^verbatim>\<open>CRITICAL: pricing backlash (source: g2.com)\<close> it is true.
\<close>

theorem parseResponse_hasCriticalIssues:
  "(concernsMatch s = Some c \<longrightarrow>
     hasCriticalIssues (parseResponse now s) =
       (trim c \<noteq> [] \<and>
        \<not> js_includes (toLowerCase (trim c)) (ascii ''no critical concerns'') \<and>
        \<not> js_includes (toLowerCase (trim c)) (ascii ''no significant concerns'') \<and>
        \<not> js_includes (toLowerCase (trim c)) (ascii ''no critical issues''))) \<and>
   map_option trim (concernsMatch (concerns_reply no_concerns_text)) = Some no_concerns_text \<and>
   hasCriticalIssues (parseResponse now (concerns_reply no_concerns_text)) = False \<and>
   map_option trim (concernsMatch (concerns_reply pricing_text)) = Some pricing_text \<and>
   hasCriticalIssues (parseResponse now (concerns_reply pricing_text)) = True"
  using no_concerns_not_critical pricing_critical
  by (simp add: parse_critical no_concerns_match no_concerns_trim pricing_match pricing_trim)
     (simp add: critical_def)

text \<open>The hypothesis of C4 holds for the pricing reply, with the flag as the theorem gives it.\<close>

theorem parseResponse_hasCriticalIssues_witness:
  "concernsMatch (concerns_reply pricing_text) = Some (nl @ pricing_text @ nl @ nl) \<and>
   hasCriticalIssues (parseResponse [] (concerns_reply pricing_text)) =
     (trim (nl @ pricing_text @ nl @ nl) \<noteq> [] \<and>
      \<not> js_includes (toLowerCase (trim (nl @ pricing_text @ nl @ nl)))
           (ascii ''no critical concerns'') \<and>
      \<not> js_includes (toLowerCase (trim (nl @ pricing_text @ nl @ nl)))
           (ascii ''no significant concerns'') \<and>
      \<not> js_includes (toLowerCase (trim (nl @ pricing_text @ nl @ nl)))
           (ascii ''no critical issues''))"
  using parseResponse_hasCriticalIssues
          [of "concerns_reply pricing_text" "nl @ pricing_text @ nl @ nl" "[]"]
        pricing_match
  by blast

text \<open>A string without the emoji of a header has no match for that header.\<close>

lemma searchHeader_absent:
  "\<not> js_includes s emoji \<Longrightarrow> searchHeader emoji heading s = None"
  by (induction s) (auto simp: matchHeaderAt_def)

lemma sectionMatch_absent:
  "\<not> js_includes s emoji \<Longrightarrow> sectionMatch emoji heading stops s = None"
  by (simp add: sectionMatch_def searchHeader_absent)

lemma parse_all_empty:
  assumes "captured (sentimentMatch s) = []" "captured (positiveMatch s) = []"
    "captured (concernsMatch s) = []" "captured (trendingMatch s) = []"
    "captured (competitiveMatch s) = []"
  shows "parseResponse now s = failedParse now s"
proof -
  have "(case concernsMatch s of Some c \<Rightarrow> critical (trim c) | None \<Rightarrow> False) = False"
    using assms(3) by (simp add: captured_def critical_def split: option.splits)
  then show ?thesis
    using assms by (simp add: parseResponse_closed failedParse_def)
qed

lemma plain_reply_no_emoji:
  "\<not> js_includes plain_reply chart" "\<not> js_includes plain_reply check_mark"
  "\<not> js_includes plain_reply warning" "\<not> js_includes plain_reply fire"
  "\<not> js_includes plain_reply target"
  by (simp_all add: plain_reply_def emoji_defs ascii_def)

text \<open>
  C5. When the trimmed capture of every one of the five sections is empty (a section
  that did not match counts as empty), the parser returns the failure result: the
  extraction-failure sentence as sentiment, the manual-review sentence as concerns, the
  other three fields empty, the raw input as \<^verbatim>\<open>fullReport\<close>, and
  \<^verbatim>\<open>hasCriticalIssues\<close> false. A reply that holds none of the five header emoji is
  such an input.
\<close>

theorem parseResponse_no_sections:
  "(captured (sentimentMatch s) = [] \<and> captured (positiveMatch s) = [] \<and>
    captured (concernsMatch s) = [] \<and> captured (trendingMatch s) = [] \<and>
    captured (competitiveMatch s) = [] \<longrightarrow>
      parseResponse now s = failedParse now s \<and>
      sentimentSummary (parseResponse now s) =
        ascii ''Unable to extract sentiment data from response.'' \<and>
      negativeConcerns (parseResponse now s) =
        ascii ''Manual review of full report required.'' \<and>
      fullReport (parseResponse now s) = s \<and>
      hasCriticalIssues (parseResponse now s) = False) \<and>
   (\<not> js_includes s chart \<and> \<not> js_includes s check_mark \<and> \<not> js_includes s warning \<and>
    \<not> js_includes s fire \<and> \<not> js_includes s target \<longrightarrow>
      parseResponse now s = failedParse now s)"
proof (intro conjI impI)
  assume "\<not> js_includes s chart \<and> \<not> js_includes s check_mark \<and> \<not> js_includes s warning \<and>
    \<not> js_includes s fire \<and> \<not> js_includes s target"
  then show "parseResponse now s = failedParse now s"
    by (intro parse_all_empty) (simp_all add: captured_def match_defs sectionMatch_absent)
qed (simp_all add: parse_all_empty failedParse_def)

text \<open>
  Both hypotheses of C5 hold for the reply without headers, and the parser returns the
  failure result for it.
\<close>

theorem parseResponse_no_sections_witness:
  "captured (sentimentMatch plain_reply) = [] \<and> captured (positiveMatch plain_reply) = [] \<and>
   captured (concernsMatch plain_reply) = [] \<and> captured (trendingMatch plain_reply) = [] \<and>
   captured (competitiveMatch plain_reply) = [] \<and>
   \<not> js_includes plain_reply chart \<and> \<not> js_includes plain_reply check_mark \<and>
   \<not> js_includes plain_reply warning \<and> \<not> js_includes plain_reply fire \<and>
   \<not> js_includes plain_reply target \<and>
   parseResponse [] plain_reply = failedParse [] plain_reply \<and>
   fullReport (parseResponse [] plain_reply) = plain_reply \<and>
   hasCriticalIssues (parseResponse [] plain_reply) = False"
  using parseResponse_no_sections [of plain_reply "[]"] plain_reply_no_emoji
  by (simp add: captured_def match_defs sectionMatch_absent failedParse_def)


subsection \<open>The adapters\<close>





lemma RedditService_searchReddit_returns:
  "\<exists>found. RedditService_searchReddit rt client toISOString brand timeRange = Inr found"
  by (simp add: RedditService_searchReddit_def try_catch_def Let_def)



























subsection \<open>The orchestrator\<close>

lemma analyzeWithClaudeKnowledge_cases:
  "analyzeWithClaudeKnowledge now (Inl e) brand timeRange = Inl e"
  "\<exists>a. analyzeWithClaudeKnowledge now (Inr content) brand timeRange = Inr a"
  by (simp_all add: analyzeWithClaudeKnowledge_def Let_def)

lemma analyzeWithRealData_cases:
  "analyzeWithRealData now (Inl e) brand timeRange found = Inl e"
  "\<exists>a. analyzeWithRealData now (Inr content) brand timeRange found = Inr a"
  by (simp_all add: analyzeWithRealData_def Let_def)

lemma analyzeBrandSentiment_reply_throws:
  "analyzeBrandSentiment now fetchedReddit fetchedBing (Inl e) brand timeRange =
     Inr (errorResult now e)"
  by (simp add: analyzeBrandSentiment_def try_catch_def Let_def analyzeWithClaudeKnowledge_cases
        analyzeWithRealData_cases split: option.splits)

lemma try_catch_total: "\<exists>r. try_catch m (\<lambda>e. Inr (h e)) = Inr r"
  by (cases m) (simp_all add: try_catch_def)

lemma analyzeBrandSentiment_returns:
  "\<exists>r. analyzeBrandSentiment now fetchedReddit fetchedBing reply brand timeRange = Inr r"
  unfolding analyzeBrandSentiment_def by (rule try_catch_total)

lemma fetchAndAggregate_throws:
  "isl fetchedReddit \<or> isl fetchedBing \<Longrightarrow>
   fetchAndAggregate fetchedReddit fetchedBing brand timeRange = (False, None)"
  by (cases fetchedReddit; cases fetchedBing)
     (simp_all add: fetchAndAggregate_def try_catch_def)

lemma analyzeBrandSentiment_fetch_throws:
  "isl fetchedReddit \<or> isl fetchedBing \<Longrightarrow>
   analyzeBrandSentiment now fetchedReddit fetchedBing (Inr content) brand timeRange =
     map_sum id (\<lambda>a. a\<lparr>analysisResult.dataSource := Some (ascii ''fallback'')\<rparr>)
       (analyzeWithClaudeKnowledge now (Inr content) brand timeRange)"
  by (simp add: analyzeBrandSentiment_def fetchAndAggregate_throws try_catch_def Let_def
        analyzeWithClaudeKnowledge_def)

lemma fallback_hasCriticalIssues:
  "map_sum id hasCriticalIssues (analyzeWithClaudeKnowledge now (Inr content) brand timeRange) =
     Inr (hasCriticalIssues (parseResponse now (responseOf content)))"
  by (simp add: analyzeWithClaudeKnowledge_def Let_def)

lemma analyzeSocialListening_no_key:
  "falsy (ANTHROPIC_API_KEY ev) \<Longrightarrow>
   analyzeSocialListening rt ev now snoowrap toISOString api reply brand timeRange wanted =
     Inl (Error (ascii ''ANTHROPIC_API_KEY environment variable is not set''))"
  by (simp add: analyzeSocialListening_def Let_def)

lemma analyzeSocialListening_returns:
  "\<not> falsy (ANTHROPIC_API_KEY ev) \<Longrightarrow>
   \<exists>r. analyzeSocialListening rt ev now snoowrap toISOString api reply brand timeRange wanted =
     Inr r"
  by (simp add: analyzeSocialListening_def Let_def SocialListeningService_new_def
        analyzeBrandSentiment_returns)

lemma error_texts_nonempty:
  "ascii ''Error: Unable to complete social listening analysis. Please check API credentials and try again.'' \<noteq> []"
  "ascii ''Analysis error occurred.'' \<noteq> []"
  by (simp_all add: ascii_def)

text \<open>
  C3, as the claim states it, fails in three ways. When the generation call throws, the
  result of \<^verbatim>\<open>analyzeBrandSentiment\<close> has a sentiment summary and a concerns text
  that are not empty. When an adapter call throws and the generation call answers with
  a reply without headers, the result is a normal report with
  \<^verbatim>\<open>hasCriticalIssues\<close> false and the source \<^verbatim>\<open>fallback\<close>. Without
  \<^verbatim>\<open>ANTHROPIC_API_KEY\<close> the exported \<^verbatim>\<open>analyzeSocialListening\<close> throws.
\<close>

theorem analyze_error_result_not_empty:
  "analyzeBrandSentiment (ascii ''now'') (Inr (forum_of [])) (Inr (web_of [] [] [] []))
     (Inl (Error (ascii ''quota''))) (ascii ''Acme'') (ascii ''7 days'') =
     Inr (errorResult (ascii ''now'') (Error (ascii ''quota''))) \<and>
   sentimentSummary (errorResult (ascii ''now'') (Error (ascii ''quota''))) \<noteq> [] \<and>
   negativeConcerns (errorResult (ascii ''now'') (Error (ascii ''quota''))) \<noteq> [] \<and>
   map_sum id hasCriticalIssues
     (analyzeBrandSentiment (ascii ''now'') (Inl (Error (ascii ''boom'')))
        (Inr (web_of [] [] [] [])) (Inr [TextBlock plain_reply]) (ascii ''Acme'')
        (ascii ''7 days'')) = Inr False \<and>
   map_sum id analysisResult.dataSource
     (analyzeBrandSentiment (ascii ''now'') (Inl (Error (ascii ''boom'')))
        (Inr (web_of [] [] [] [])) (Inr [TextBlock plain_reply]) (ascii ''Acme'')
        (ascii ''7 days'')) = Inr (Some (ascii ''fallback'')) \<and>
   analyzeSocialListening sample_runtime empty_env (ascii ''now'') (Inr failing_client) fixed_clock failing_web
     (Inr [TextBlock plain_reply]) (ascii ''Acme'') (ascii ''7 days'') (ascii ''all'') =
     Inl (Error (ascii ''ANTHROPIC_API_KEY environment variable is not set''))"
proof -
  have "hasCriticalIssues (parseResponse (ascii ''now'') (responseOf [TextBlock plain_reply])) =
          False"
    using plain_reply_no_emoji
    by (simp add: responseOf_def parse_critical concernsMatch_def sectionMatch_absent)
  then show ?thesis
    by (simp add: analyzeBrandSentiment_reply_throws analyzeBrandSentiment_fetch_throws
          analyzeSocialListening_no_key errorResult_def error_texts_nonempty
          analyzeWithClaudeKnowledge_def Let_def empty_env_def falsy_def)
qed

text \<open>
  C3, amended. \<^verbatim>\<open>analyzeBrandSentiment\<close> never raises: it returns a result object
  whatever the adapter calls and the generation call do. When the generation call
  throws, the result is the error result: \<^verbatim>\<open>hasCriticalIssues\<close> true, the source
  \<^verbatim>\<open>error\<close>, the highlights, topics and insights empty, the sentiment summary and
  the concerns set to fixed error sentences, and \<^verbatim>\<open>fullReport\<close> an error banner with
  the exception's message. When an adapter call throws and the generation call answers,
  the exception is absorbed: the result is the one of the knowledge-fallback path with
  the source \<^verbatim>\<open>fallback\<close>, and its \<^verbatim>\<open>hasCriticalIssues\<close> is what the parser reads
  from the reply. The exported \<^verbatim>\<open>analyzeSocialListening\<close> throws when
  \<^verbatim>\<open>ANTHROPIC_API_KEY\<close> is not set, and returns a result object otherwise.
\<close>

theorem analyze_failure_policy:
  "(\<exists>r. analyzeBrandSentiment now fetchedReddit fetchedBing reply brand timeRange = Inr r) \<and>
   analyzeBrandSentiment now fetchedReddit fetchedBing (Inl e) brand timeRange =
     Inr (errorResult now e) \<and>
   hasCriticalIssues (errorResult now e) = True \<and>
   analysisResult.dataSource (errorResult now e) = Some (ascii ''error'') \<and>
   positiveHighlights (errorResult now e) = [] \<and>
   trendingTopics (errorResult now e) = [] \<and>
   competitiveInsights (errorResult now e) = [] \<and>
   sentimentSummary (errorResult now e) =
     ascii ''Error: Unable to complete social listening analysis. Please check API credentials and try again.'' \<and>
   negativeConcerns (errorResult now e) = ascii ''Analysis error occurred.'' \<and>
   fullReport (errorResult now e) =
     ascii ''# Social Listening Analysis Error'' @ nl @ nl @
     ascii ''**Error:** '' @ message e @ nl @ nl @ ascii ''**Time:** '' @ now \<and>
   (isl fetchedReddit \<or> isl fetchedBing \<longrightarrow>
      analyzeBrandSentiment now fetchedReddit fetchedBing (Inr content) brand timeRange =
        map_sum id (\<lambda>a. a\<lparr>analysisResult.dataSource := Some (ascii ''fallback'')\<rparr>)
          (analyzeWithClaudeKnowledge now (Inr content) brand timeRange) \<and>
      map_sum id hasCriticalIssues
          (analyzeBrandSentiment now fetchedReddit fetchedBing (Inr content) brand timeRange) =
        Inr (hasCriticalIssues (parseResponse now (responseOf content)))) \<and>
   (falsy (ANTHROPIC_API_KEY ev) \<longrightarrow>
      analyzeSocialListening rt ev now snoowrap toISOString api reply brand timeRange wanted =
        Inl (Error (ascii ''ANTHROPIC_API_KEY environment variable is not set''))) \<and>
   (\<not> falsy (ANTHROPIC_API_KEY ev) \<longrightarrow>
      (\<exists>r. analyzeSocialListening rt ev now snoowrap toISOString api reply brand timeRange wanted =
         Inr r))"
proof (intro conjI impI)
  show "\<exists>r. analyzeBrandSentiment now fetchedReddit fetchedBing reply brand timeRange = Inr r"
    by (rule analyzeBrandSentiment_returns)
  show "\<exists>r. analyzeSocialListening rt ev now snoowrap toISOString api reply brand timeRange wanted =
          Inr r"
    if "\<not> falsy (ANTHROPIC_API_KEY ev)"
    using that by (rule analyzeSocialListening_returns)
  show "map_sum id hasCriticalIssues
          (analyzeBrandSentiment now fetchedReddit fetchedBing (Inr content) brand timeRange) =
        Inr (hasCriticalIssues (parseResponse now (responseOf content)))"
    if "isl fetchedReddit \<or> isl fetchedBing"
    using that
    by (simp add: analyzeBrandSentiment_fetch_throws analyzeWithClaudeKnowledge_def Let_def)
qed (simp_all add: analyzeBrandSentiment_reply_throws analyzeBrandSentiment_fetch_throws
       analyzeSocialListening_no_key errorResult_def)

text \<open>
  The hypotheses of C3 hold on the sample data: a Reddit call that throws, the empty
  environment without the key and the full environment with it.
\<close>

theorem analyze_failure_policy_witness:
  "isl (Inl (Error (ascii ''boom'')) :: error + redditData) \<and>
   falsy (ANTHROPIC_API_KEY empty_env) \<and> \<not> falsy (ANTHROPIC_API_KEY full_env) \<and>
   analyzeBrandSentiment [] (Inl (Error (ascii ''boom''))) (Inr (web_of [] [] [] []))
       (Inr [TextBlock plain_reply]) (ascii ''Acme'') (ascii ''7 days'') =
     map_sum id (\<lambda>a. a\<lparr>analysisResult.dataSource := Some (ascii ''fallback'')\<rparr>)
       (analyzeWithClaudeKnowledge [] (Inr [TextBlock plain_reply]) (ascii ''Acme'')
          (ascii ''7 days'')) \<and>
   analyzeSocialListening sample_runtime empty_env [] (Inr failing_client) fixed_clock failing_web
       (Inr [TextBlock plain_reply]) (ascii ''Acme'') (ascii ''7 days'') (ascii ''all'') =
     Inl (Error (ascii ''ANTHROPIC_API_KEY environment variable is not set'')) \<and>
   (\<exists>r. analyzeSocialListening sample_runtime full_env [] (Inr failing_client) fixed_clock failing_web
       (Inr [TextBlock plain_reply]) (ascii ''Acme'') (ascii ''7 days'') (ascii ''all'') =
     Inr r)"
proof -
  have env_facts:
    "falsy (ANTHROPIC_API_KEY empty_env)" "\<not> falsy (ANTHROPIC_API_KEY full_env)"
    by (simp_all add: falsy_def empty_env_def full_env_def ascii_def)
  note a = analyze_failure_policy
             [of "[]" "Inl (Error (ascii ''boom''))" "Inr (web_of [] [] [] [])"
                 "Inr [TextBlock plain_reply]" "ascii ''Acme''" "ascii ''7 days''"
                 "Error (ascii ''boom'')" "[TextBlock plain_reply]" empty_env sample_runtime
                 "Inr failing_client" fixed_clock failing_web "ascii ''all''"]
  note b = analyze_failure_policy
             [of "[]" "Inl (Error (ascii ''boom''))" "Inr (web_of [] [] [] [])"
                 "Inr [TextBlock plain_reply]" "ascii ''Acme''" "ascii ''7 days''"
                 "Error (ascii ''boom'')" "[TextBlock plain_reply]" full_env sample_runtime
                 "Inr failing_client" fixed_clock failing_web "ascii ''all''"]
  show ?thesis
    using a b env_facts by simp
qed


end
